theory Spec2Isabelle
  imports Complex_Main "HOL-Library.Char_ord" "HOL-Library.List_Lexorder"
begin

section \<open>Tables\<close>

text \<open>
  A pandas DataFrame is a row index together with an ordered list of named columns, each
  column carrying one dtype. The controllers only ever ask whether a dtype's kind is one of
  \<open>biufc\<close> (numeric) and whether it is a subtype of \<open>np.number\<close>, so three kinds of column
  are kept apart: boolean columns (kind \<open>b\<close>, numeric but not \<open>np.number\<close>, never missing),
  number columns (kinds \<open>i u f c\<close>; a missing cell is \<open>None\<close>) and object columns (every
  other kind, holding text; a missing cell is \<open>None\<close>). Numbers are real numbers: rounding,
  infinities and integer overflow of the machine types are outside this model.
\<close>

datatype coldata =
    BoolCol "bool list"
  | NumCol "real option list"
  | ObjCol "string option list"

record column =
  cname :: string
  cdata :: coldata

record dataframe =
  row_index :: "nat list"
  cols :: "column list"

datatype cell = NaN | BoolV bool | NumV real | StrV string

datatype kind = KBool | KNumber | KObject

fun dtype_kind :: "coldata \<Rightarrow> kind" where
  "dtype_kind (BoolCol bs) = KBool"
| "dtype_kind (NumCol xs) = KNumber"
| "dtype_kind (ObjCol xs) = KObject"

text \<open>\<open>dtype.kind in "biufc"\<close>\<close>

fun is_biufc :: "kind \<Rightarrow> bool" where
  "is_biufc KBool = True"
| "is_biufc KNumber = True"
| "is_biufc KObject = False"

fun cells :: "coldata \<Rightarrow> cell list" where
  "cells (BoolCol bs) = map BoolV bs"
| "cells (NumCol xs) = map (\<lambda>x. case x of None \<Rightarrow> NaN | Some v \<Rightarrow> NumV v) xs"
| "cells (ObjCol xs) = map (\<lambda>x. case x of None \<Rightarrow> NaN | Some s \<Rightarrow> StrV s) xs"

fun isnull :: "coldata \<Rightarrow> bool list" where
  "isnull (BoolCol bs) = map (\<lambda>b. False) bs"
| "isnull (NumCol xs) = map (\<lambda>x. x = None) xs"
| "isnull (ObjCol xs) = map (\<lambda>x. x = None) xs"

definition null_count :: "coldata \<Rightarrow> nat" where
  "null_count d = length (filter id (isnull d))"

definition notnull_count :: "coldata \<Rightarrow> nat" where
  "notnull_count d = length (filter Not (isnull d))"

text \<open>\<open>len(df)\<close>, \<open>df.shape\<close>, \<open>df.empty\<close> (either axis of length 0) and \<open>df.columns\<close>.\<close>

definition len :: "dataframe \<Rightarrow> nat" where
  "len df = length (row_index df)"

definition shape :: "dataframe \<Rightarrow> nat \<times> nat" where
  "shape df = (len df, length (cols df))"

definition empty :: "dataframe \<Rightarrow> bool" where
  "empty df = (len df = 0 \<or> cols df = [])"

definition column_names :: "dataframe \<Rightarrow> string list" where
  "column_names df = map cname (cols df)"

text \<open>\<open>pd.DataFrame()\<close>: no rows and no columns.\<close>

definition DataFrame :: dataframe where
  "DataFrame = \<lparr>row_index = [], cols = []\<rparr>"

text \<open>\<open>df.isnull().sum().sum()\<close>\<close>

definition missing_total :: "dataframe \<Rightarrow> nat" where
  "missing_total df = sum_list (map (\<lambda>c. null_count (cdata c)) (cols df))"

text \<open>Every column of a frame pandas builds is as long as the index.\<close>

definition aligned :: "dataframe \<Rightarrow> bool" where
  "aligned df = list_all (\<lambda>c. length (cells (cdata c)) = len df) (cols df)"

subsection \<open>Rows and duplicates\<close>

definition row_at :: "dataframe \<Rightarrow> nat \<Rightarrow> cell list" where
  "row_at df i = map (\<lambda>c. cells (cdata c) ! i) (cols df)"

definition rows :: "dataframe \<Rightarrow> cell list list" where
  "rows df = map (row_at df) [0..<len df]"

text \<open>
  \<open>duplicated(keep='first')\<close> marks a row that equals an earlier row; \<open>keep=False\<close> marks
  every row that equals some other row. Missing cells compare equal to each other there.
  On an empty frame pandas returns an empty mask.
\<close>

fun seen_before :: "'a list \<Rightarrow> 'a list \<Rightarrow> bool list" where
  "seen_before seen [] = []"
| "seen_before seen (r # rs) = (r \<in> set seen) # seen_before (seen @ [r]) rs"

definition duplicated :: "dataframe \<Rightarrow> bool list" where
  "duplicated df = (if empty df then [] else seen_before [] (rows df))"


text \<open>Boolean-mask selection of the entries of a list.\<close>

fun select :: "bool list \<Rightarrow> 'a list \<Rightarrow> 'a list" where
  "select (m # ms) (x # xs) = (if m then x # select ms xs else select ms xs)"
| "select ms xs = []"

fun select_data :: "bool list \<Rightarrow> coldata \<Rightarrow> coldata" where
  "select_data m (BoolCol bs) = BoolCol (select m bs)"
| "select_data m (NumCol xs) = NumCol (select m xs)"
| "select_data m (ObjCol xs) = ObjCol (select m xs)"

definition filter_rows :: "bool list \<Rightarrow> dataframe \<Rightarrow> dataframe" where
  "filter_rows m df =
     \<lparr>row_index = select m (row_index df),
      cols = map (\<lambda>c. c\<lparr>cdata := select_data m (cdata c)\<rparr>) (cols df)\<rparr>"

text \<open>\<open>df.drop_duplicates()\<close>: an empty frame is returned as it is.\<close>

definition drop_duplicates :: "dataframe \<Rightarrow> dataframe" where
  "drop_duplicates df =
     (if empty df then df else filter_rows (map Not (duplicated df)) df)"

definition count_true :: "bool list \<Rightarrow> nat" where
  "count_true m = length (filter id m)"

section \<open>Results, messages and exceptions\<close>

text \<open>
  A message is the f-string of the source, kept as its fragments: literal text, and the
  numbers the source interpolates (their decimal rendering is not modelled).
\<close>

datatype fragment = Lit string | IntF int | RealF real | Fixed nat real

datatype pyval = IntV int | RealV real | CellV cell | ShapeV "nat \<times> nat"

text \<open>The dictionaries the controllers return: \<open>success\<close>, \<open>message\<close> and further keys.\<close>

record result =
  success :: bool
  message :: "fragment list"
  payload :: "(string \<times> pyval) list"

datatype exn_class = ValueError | AttributeError | IndexingError | KeyError | OtherError

record exn =
  exn_class :: exn_class
  str :: string

definition failure :: "fragment list \<Rightarrow> result" where
  "failure msg = \<lparr>success = False, message = msg, payload = []\<rparr>"

definition quoted :: "string \<Rightarrow> string" where
  "quoted s = [CHR 0x27] @ s @ [CHR 0x27]"

section \<open>DatasetManager\<close>

record dataset =
  data :: dataframe
  file_path :: "string option"

record dataset_manager =
  current_dataset :: "dataset option"

text \<open>
  \<open>get_dataframe\<close> returns the loaded dataset's frame, and an empty frame when nothing is
  loaded. The result is optional because the callers test it against \<open>None\<close>.
\<close>

definition get_dataframe :: "dataset_manager \<Rightarrow> dataframe option" where
  "get_dataframe dm =
     (case current_dataset dm of
        Some ds \<Rightarrow> Some (data ds)
      | None \<Rightarrow> Some DataFrame)"

definition update_dataframe :: "dataframe \<Rightarrow> dataset_manager \<Rightarrow> dataset_manager" where
  "update_dataframe df dm =
     (case current_dataset dm of
        Some ds \<Rightarrow> dm\<lparr>current_dataset := Some (ds\<lparr>data := df\<rparr>)\<rparr>
      | None \<Rightarrow> dm)"

section \<open>DataValidator\<close>

record validation_results =
  is_valid :: bool
  errors :: "string list"
  warnings :: "fragment list list"
  info_shape :: "(nat \<times> nat) option"
  info_dtypes :: "(kind \<times> nat) list"

text \<open>
  \<open>validate_dataframe\<close>. The \<open>info\<close> dictionary keeps the shape and the count of columns
  per dtype kind; its memory estimate is not modelled.
\<close>

definition dtype_counts :: "dataframe \<Rightarrow> (kind \<times> nat) list" where
  "dtype_counts df =
     (let ks = map (\<lambda>c. dtype_kind (cdata c)) (cols df)
      in map (\<lambda>k. (k, count_list ks k)) (remdups ks))"

definition validate_dataframe :: "dataframe \<Rightarrow> validation_results" where
  "validate_dataframe df =
     (if empty df then
        \<lparr>is_valid = False, errors = [''Dataframe is empty''], warnings = [],
         info_shape = None, info_dtypes = []\<rparr>
      else
        (let missing_count = missing_total df;
             w1 = (if missing_count > 0
                   then [[Lit ''Found '', IntF (int missing_count), Lit '' missing values'']]
                   else []);
             duplicate_count = count_true (duplicated df);
             w2 = (if duplicate_count > 0
                   then [[Lit ''Found '', IntF (int duplicate_count), Lit '' duplicate rows'']]
                   else [])
         in \<lparr>is_valid = True, errors = [], warnings = w1 @ w2,
             info_shape = Some (shape df), info_dtypes = dtype_counts df\<rparr>))"

text \<open>
  \<open>check_duplicates\<close> selects the rows by the \<open>keep=False\<close> mask. On a frame that has rows
  but no column the mask is empty and pandas refuses it as an indexer.
\<close>

record duplicate_report =
  duplicate_count :: nat
  duplicate_indices :: "nat list"


section \<open>Column primitives\<close>

text \<open>\<open>df[column]\<close>: every column carrying the label (pandas allows a label to repeat).\<close>

definition getitem :: "dataframe \<Rightarrow> string \<Rightarrow> column list" where
  "getitem df name = filter (\<lambda>c. cname c = name) (cols df)"

text \<open>
  \<open>df[name] = values\<close>: the values must be as long as the index; they replace the data of
  every column with that label, or are appended as a new last column when there is none.
\<close>

definition setitem :: "string \<Rightarrow> coldata \<Rightarrow> dataframe \<Rightarrow> exn + dataframe" where
  "setitem name d df =
     (if length (cells d) \<noteq> len df
      then Inl \<lparr>exn_class = ValueError,
                str = ''Length of values does not match length of index''\<rparr>
      else if name \<in> set (column_names df)
      then Inr (df\<lparr>cols := map (\<lambda>c. if cname c = name then c\<lparr>cdata := d\<rparr> else c) (cols df)\<rparr>)
      else Inr (df\<lparr>cols := cols df @ [\<lparr>cname = name, cdata = d\<rparr>]\<rparr>))"

definition dropna_values :: "'a option list \<Rightarrow> 'a list" where
  "dropna_values xs = map the (filter (\<lambda>x. x \<noteq> None) xs)"

definition fillna :: "'a \<Rightarrow> 'a option list \<Rightarrow> 'a option list" where
  "fillna v xs = map (\<lambda>x. case x of None \<Rightarrow> Some v | Some y \<Rightarrow> Some y) xs"

text \<open>\<open>Series.mean()\<close> and \<open>Series.min()\<close> skip missing cells; over no value they are missing.\<close>

definition mean :: "real option list \<Rightarrow> real option" where
  "mean xs =
     (case dropna_values xs of
        [] \<Rightarrow> None
      | v # vs \<Rightarrow> Some (sum_list (v # vs) / real (length (v # vs))))"

definition nanmin :: "real option list \<Rightarrow> real option" where
  "nanmin xs =
     (case dropna_values xs of
        [] \<Rightarrow> None
      | v # vs \<Rightarrow> Some (foldl min v vs))"

text \<open>\<open>Series.mode()\<close>: the most frequent values among the cells present, in ascending order.\<close>

definition mode :: "('a::linorder) option list \<Rightarrow> 'a list" where
  "mode xs =
     (let vs = dropna_values xs;
          top = foldl max 0 (map (count_list vs) vs)
      in sort (remdups (filter (\<lambda>v. count_list vs v = top) vs)))"

text \<open>The numbers of a numeric column; a boolean counts as 0 or 1.\<close>

fun as_float :: "coldata \<Rightarrow> real option list" where
  "as_float (BoolCol bs) = map (\<lambda>b. Some (if b then 1 else 0)) bs"
| "as_float (NumCol xs) = xs"
| "as_float (ObjCol xs) = map (\<lambda>x. None) xs"

text \<open>The checks every operation opens with, before its guarded block.\<close>

datatype 'a checked = Proceed 'a | Reject result | Escape exn

definition no_dataset :: result where
  "no_dataset = failure [Lit ''No dataset loaded'']"

definition not_found :: "string \<Rightarrow> result" where
  "not_found column = failure [Lit (''Column '' @ quoted column @ '' not found'')]"

definition table_guard :: "dataframe option \<Rightarrow> dataframe checked" where
  "table_guard fetched =
     (case fetched of
        None \<Rightarrow> Reject no_dataset
      | Some df \<Rightarrow> if empty df then Reject no_dataset else Proceed df)"

definition column_guard :: "string \<Rightarrow> dataframe option \<Rightarrow> dataframe checked" where
  "column_guard column fetched =
     (case table_guard fetched of
        Proceed df \<Rightarrow>
          if column \<notin> set (column_names df) then Reject (not_found column) else Proceed df
      | other \<Rightarrow> other)"

text \<open>
  \<open>df[column].dtype.kind not in "biufc"\<close>. When the label repeats, \<open>df[column]\<close> is a frame,
  which has no \<open>dtype\<close>: the attribute error is raised outside the guarded block.
\<close>

definition numeric_guard ::
  "fragment list \<Rightarrow> string \<Rightarrow> dataframe option \<Rightarrow> (dataframe \<times> coldata) checked" where
  "numeric_guard not_numeric column fetched =
     (case column_guard column fetched of
        Proceed df \<Rightarrow>
          (case getitem df column of
             [c] \<Rightarrow> if is_biufc (dtype_kind (cdata c)) then Proceed (df, cdata c)
                    else Reject (failure not_numeric)
           | _ \<Rightarrow> Escape \<lparr>exn_class = AttributeError,
                           str = ''DataFrame object has no attribute dtype''\<rparr>)
      | Reject r \<Rightarrow> Reject r
      | Escape x \<Rightarrow> Escape x)"

section \<open>The numeric and interpreter back ends\<close>

text \<open>
  The scalers, the quantile binning, the label encoder, the indicator columns, the principal
  component analysis, Python's \<open>eval\<close> and its number parsers are library code: they are
  parameters of the model. A fitted scaler, binning or encoder acts cell by cell; a fitted
  projection acts row by row. The evaluator is taken to have no effect on the table.
\<close>

datatype scaler = StandardScaler | MinMaxScaler | RobustScaler

datatype pyobj = Scalar cell | Array coldata

record library =
  fit :: "scaler \<Rightarrow> real option list \<Rightarrow> exn + (real \<Rightarrow> real)"
  qcut :: "real option list \<Rightarrow> int \<Rightarrow> exn + (real \<Rightarrow> real option)"
  label_fit :: "cell list \<Rightarrow> exn + (cell \<Rightarrow> int)"
  get_dummies :: "column list \<Rightarrow> string \<Rightarrow> exn + column list"
  pca_fit :: "int \<Rightarrow> real list list \<Rightarrow> exn + ((real list \<Rightarrow> nat \<Rightarrow> real) \<times> real list)"
  py_eval :: "string \<Rightarrow> dataframe \<Rightarrow> exn + pyobj"
  py_float :: "string \<Rightarrow> exn + real"
  py_int :: "string \<Rightarrow> exn + int"

section \<open>DataCleaningController\<close>

subsection \<open>The stages of \<open>auto_clean\<close>\<close>

definition missing_indicators :: "string list" where
  "missing_indicators =
     [''?'', ''??'', ''???'', ''na'', ''NaN'', ''NULL'', ''null'', ''--'', [], '' '',
      ''none'', ''None'']"

fun replace_data :: "string list \<Rightarrow> coldata \<Rightarrow> coldata" where
  "replace_data toks (ObjCol xs) =
     ObjCol (map (\<lambda>x. case x of None \<Rightarrow> None
                          | Some s \<Rightarrow> if s \<in> set toks then None else Some s) xs)"
| "replace_data toks d = d"

text \<open>Step 1: \<open>df.replace(missing_indicators, np.nan)\<close>.\<close>

definition replace_with_nan :: "string list \<Rightarrow> dataframe \<Rightarrow> dataframe" where
  "replace_with_nan toks df =
     df\<lparr>cols := map (\<lambda>c. c\<lparr>cdata := replace_data toks (cdata c)\<rparr>) (cols df)\<rparr>"

text \<open>Step 2: \<open>dropna(axis=1, how="all")\<close> keeps a column that has a cell present.\<close>

definition dropna_all :: "dataframe \<Rightarrow> dataframe" where
  "dropna_all df = df\<lparr>cols := filter (\<lambda>c. 0 < notnull_count (cdata c)) (cols df)\<rparr>"

text \<open>
  Step 3: \<open>dropna(axis=1, thresh=threshold)\<close> keeps a column with at least \<open>threshold\<close>
  cells present, where \<open>threshold = 0.8 * len(df_cleaned)\<close>.
\<close>

definition threshold :: "dataframe \<Rightarrow> real" where
  "threshold df = 8 / 10 * real (len df)"

definition dropna_thresh :: "real \<Rightarrow> dataframe \<Rightarrow> dataframe" where
  "dropna_thresh thresh df =
     df\<lparr>cols := filter (\<lambda>c. thresh \<le> real (notnull_count (cdata c))) (cols df)\<rparr>"

text \<open>
  Step 4, for one column: a numeric column with a missing cell is filled with its mean (0
  when nothing is present), any other with its first mode (\<open>Unknown\<close> when there is none).
\<close>

fun fill_intelligently :: "coldata \<Rightarrow> coldata" where
  "fill_intelligently (BoolCol bs) = BoolCol bs"
| "fill_intelligently (NumCol xs) =
     (if None \<in> set xs
      then (case mean xs of Some m \<Rightarrow> NumCol (fillna m xs) | None \<Rightarrow> NumCol (fillna 0 xs))
      else NumCol xs)"
| "fill_intelligently (ObjCol xs) =
     (if None \<in> set xs
      then (case mode xs of m # ms \<Rightarrow> ObjCol (fillna m xs)
                          | [] \<Rightarrow> ObjCol (fillna ''Unknown'' xs))
      else ObjCol xs)"

text \<open>
  The loop of step 4 reads \<open>df_cleaned[col].isnull().any()\<close> as a truth value. For a label
  that repeats this is a Series, whose truth value pandas refuses: the loop raises.
\<close>

definition fill_columns :: "dataframe \<Rightarrow> exn + dataframe" where
  "fill_columns df =
     (if distinct (column_names df)
      then Inr (df\<lparr>cols := map (\<lambda>c. c\<lparr>cdata := fill_intelligently (cdata c)\<rparr>) (cols df)\<rparr>)
      else Inl \<lparr>exn_class = ValueError, str = ''The truth value of a Series is ambiguous''\<rparr>)"

definition stage3 :: "dataframe \<Rightarrow> dataframe" where
  "stage3 df =
     (let df1 = replace_with_nan missing_indicators df;
          df2 = dropna_all df1
      in dropna_thresh (threshold df2) df2)"

definition cleaning_failed :: "exn \<Rightarrow> result" where
  "cleaning_failed x = failure [Lit ''Auto cleaning failed: '', Lit (str x)]"

definition auto_clean :: "dataset_manager \<Rightarrow> (exn + result) \<times> dataset_manager" where
  "auto_clean dm =
     (case get_dataframe dm of
        None \<Rightarrow> (Inr (failure [Lit ''No dataset loaded or dataset is empty'']), dm)
      | Some df \<Rightarrow>
          if empty df then (Inr (failure [Lit ''No dataset loaded or dataset is empty'']), dm)
          else
            (case fill_columns (stage3 df) of
               Inl x \<Rightarrow> (Inr (cleaning_failed x), dm)
             | Inr df4 \<Rightarrow>
                 (let duplicates_removed = count_true (duplicated df4);
                      df_cleaned = drop_duplicates df4
                  in (Inr \<lparr>success = True,
                           message = [Lit ''Dataset cleaned successfully''],
                           payload =
                             [(''original_shape'', ShapeV (shape df)),
                              (''new_shape'', ShapeV (shape df_cleaned)),
                              (''duplicates_removed'', IntV (int duplicates_removed)),
                              (''columns_removed'',
                                 IntV (int (snd (shape df)) - int (snd (shape df_cleaned))))]\<rparr>,
                      update_dataframe df_cleaned dm))))"

subsection \<open>The single operations\<close>


text \<open>\<open>remove_duplicates\<close>; nothing in its guarded block can raise.\<close>

definition remove_duplicates :: "dataset_manager \<Rightarrow> (exn + result) \<times> dataset_manager" where
  "remove_duplicates dm =
     (case get_dataframe dm of
        None \<Rightarrow> (Inr no_dataset, dm)
      | Some df \<Rightarrow>
          if empty df then (Inr no_dataset, dm)
          else
            (let duplicates_count = count_true (duplicated df);
                 df' = drop_duplicates df
             in (Inr \<lparr>success = True,
                      message = [Lit ''Removed '', IntF (int duplicates_count),
                                 Lit '' duplicate rows''],
                      payload = [(''duplicates_removed'', IntV (int duplicates_count))]\<rparr>,
                 update_dataframe df' dm)))"

text \<open>
  \<open>fill_missing_with_mean\<close>. The frame fetched is the live one: the assignment writes into
  the store, and \<open>update_dataframe\<close> then stores the same frame.
\<close>

definition success_with :: "fragment list \<Rightarrow> (string \<times> pyval) list \<Rightarrow> result" where
  "success_with msg extra = \<lparr>success = True, message = msg, payload = extra\<rparr>"

definition fill_failed :: "exn \<Rightarrow> result" where
  "fill_failed x = failure [Lit ''Fill operation failed: '', Lit (str x)]"

definition cell_of_real :: "real option \<Rightarrow> cell" where
  "cell_of_real x = (case x of None \<Rightarrow> NaN | Some v \<Rightarrow> NumV v)"

definition fill_missing_with_mean ::
  "string \<Rightarrow> dataset_manager \<Rightarrow> (exn + result) \<times> dataset_manager" where
  "fill_missing_with_mean column dm =
     (case numeric_guard [Lit ''Mean can only be applied to numeric columns''] column
             (get_dataframe dm) of
        Reject r \<Rightarrow> (Inr r, dm)
      | Escape x \<Rightarrow> (Inl x, dm)
      | Proceed (df, d) \<Rightarrow>
          (let mean_value = mean (as_float d);
               filled = (case (d, mean_value) of
                           (NumCol xs, Some m) \<Rightarrow> NumCol (fillna m xs)
                         | _ \<Rightarrow> d)
           in case setitem column filled df of
                Inl x \<Rightarrow> (Inr (fill_failed x), dm)
              | Inr df' \<Rightarrow>
                  (Inr (success_with [Lit ''Filled missing values with mean'']
                          [(''mean_value'', CellV (cell_of_real mean_value))]),
                   update_dataframe df' dm)))"

text \<open>
  \<open>fill_missing_with_mode\<close>. An all-missing number column filled with \<open>Unknown\<close> becomes a
  text column. For a label that repeats, \<open>mode_values[0]\<close> looks up a column labelled 0.
\<close>

fun fill_with_mode :: "coldata \<Rightarrow> coldata \<times> cell" where
  "fill_with_mode (BoolCol bs) =
     (case mode (map Some bs) of
        m # ms \<Rightarrow> (BoolCol bs, BoolV m)
      | [] \<Rightarrow> (BoolCol bs, StrV ''Unknown''))"
| "fill_with_mode (NumCol xs) =
     (case mode xs of
        m # ms \<Rightarrow> (NumCol (fillna m xs), NumV m)
      | [] \<Rightarrow> (ObjCol (map (\<lambda>x. Some ''Unknown'') xs), StrV ''Unknown''))"
| "fill_with_mode (ObjCol xs) =
     (case mode xs of
        m # ms \<Rightarrow> (ObjCol (fillna m xs), StrV m)
      | [] \<Rightarrow> (ObjCol (fillna ''Unknown'' xs), StrV ''Unknown''))"

definition fill_missing_with_mode ::
  "string \<Rightarrow> dataset_manager \<Rightarrow> (exn + result) \<times> dataset_manager" where
  "fill_missing_with_mode column dm =
     (case column_guard column (get_dataframe dm) of
        Reject r \<Rightarrow> (Inr r, dm)
      | Escape x \<Rightarrow> (Inl x, dm)
      | Proceed df \<Rightarrow>
          (case getitem df column of
             [c] \<Rightarrow>
               (let (filled, mode_value) = fill_with_mode (cdata c)
                in case setitem column filled df of
                     Inl x \<Rightarrow> (Inr (fill_failed x), dm)
                   | Inr df' \<Rightarrow>
                       (Inr (success_with [Lit ''Filled missing values with mode'']
                               [(''mode_value'', CellV mode_value)]),
                        update_dataframe df' dm))
           | _ \<Rightarrow> (Inr (fill_failed \<lparr>exn_class = KeyError, str = ''0''\<rparr>), dm)))"

text \<open>
  \<open>fill_missing_with_custom\<close>, with the value as the text the caller typed. For a numeric
  column it is parsed by \<open>float\<close> when it holds a dot and by \<open>int\<close> otherwise.
\<close>

definition fill_missing_with_custom ::
  "library \<Rightarrow> string \<Rightarrow> string \<Rightarrow> dataset_manager \<Rightarrow> (exn + result) \<times> dataset_manager" where
  "fill_missing_with_custom L column v dm =
     (case column_guard column (get_dataframe dm) of
        Reject r \<Rightarrow> (Inr r, dm)
      | Escape x \<Rightarrow> (Inl x, dm)
      | Proceed df \<Rightarrow>
          (case getitem df column of
             [c] \<Rightarrow>
               (let parsed =
                      (if is_biufc (dtype_kind (cdata c))
                       then (if CHR ''.'' \<in> set v
                             then map_sum id NumV (py_float L v)
                             else map_sum id (\<lambda>i. NumV (of_int i)) (py_int L v))
                       else Inr (StrV v))
                in case parsed of
                     Inl x \<Rightarrow> (Inr (fill_failed x), dm)
                   | Inr value \<Rightarrow>
                       (let filled =
                              (case (cdata c, value) of
                                 (NumCol xs, NumV r) \<Rightarrow> NumCol (fillna r xs)
                               | (ObjCol xs, StrV t) \<Rightarrow> ObjCol (fillna t xs)
                               | (d, other) \<Rightarrow> d)
                        in case setitem column filled df of
                             Inl x \<Rightarrow> (Inr (fill_failed x), dm)
                           | Inr df' \<Rightarrow>
                               (Inr (success_with
                                       [Lit ''Filled missing values with custom value'']
                                       [(''custom_value'', CellV value)]),
                                update_dataframe df' dm)))
           | _ \<Rightarrow> (Inr (fill_failed \<lparr>exn_class = AttributeError,
                                       str = ''DataFrame object has no attribute dtype''\<rparr>),
                    dm)))"

text \<open>\<open>drop_column\<close>: \<open>df.drop(columns=[column])\<close> removes every column with the label.\<close>

definition drop_column ::
  "string \<Rightarrow> dataset_manager \<Rightarrow> (exn + result) \<times> dataset_manager" where
  "drop_column column dm =
     (case column_guard column (get_dataframe dm) of
        Reject r \<Rightarrow> (Inr r, dm)
      | Escape x \<Rightarrow> (Inl x, dm)
      | Proceed df \<Rightarrow>
          (Inr (success_with
                  [Lit (''Successfully dropped column '' @ quoted column)] []),
           update_dataframe (df\<lparr>cols := filter (\<lambda>c. cname c \<noteq> column) (cols df)\<rparr>) dm))"

text \<open>\<open>get_data_quality_summary\<close>; the memory estimate is not modelled.\<close>

definition get_data_quality_summary :: "dataset_manager \<Rightarrow> (string \<times> pyval) list option" where
  "get_data_quality_summary dm =
     (case table_guard (get_dataframe dm) of
        Proceed df \<Rightarrow>
          Some [(''total_rows'', IntV (int (len df))),
                (''total_cols'', IntV (int (length (cols df)))),
                (''missing_total'', IntV (int (missing_total df))),
                (''missing_pct'',
                   RealV (if len df * length (cols df) > 0
                          then real (missing_total df) / real (len df * length (cols df)) * 100
                          else 0)),
                (''duplicate_count'', IntV (int (count_true (duplicated df))))]
      | _ \<Rightarrow> None)"

section \<open>FeatureEngineeringController\<close>

record engine =
  dataset_manager :: dataset_manager
  undo_stack :: "dataframe list"
  redo_stack :: "dataframe list"

text \<open>The decimal rendering of an integer, for the column names the source formats.\<close>

fun string_of_nat :: "nat \<Rightarrow> string" where
  "string_of_nat n =
     (if n < 10 then [''0123456789'' ! n]
      else string_of_nat (n div 10) @ [''0123456789'' ! (n mod 10)])"

declare string_of_nat.simps [simp del]

definition string_of_int :: "int \<Rightarrow> string" where
  "string_of_int i = (if i < 0 then ''-'' @ string_of_nat (nat (- i)) else string_of_nat (nat i))"

subsection \<open>Undo and redo\<close>

text \<open>
  \<open>_save_undo_state\<close>: a deep copy of the current frame goes on top of the undo stack and
  the redo stack is cleared, both in the one step, unless the frame is empty.
\<close>

definition save_undo_state :: "engine \<Rightarrow> engine" where
  "save_undo_state e =
     (case get_dataframe (dataset_manager e) of
        None \<Rightarrow> e
      | Some df \<Rightarrow>
          if \<not> empty df then e\<lparr>undo_stack := undo_stack e @ [df], redo_stack := []\<rparr> else e)"

definition undo :: "engine \<Rightarrow> (exn + result) \<times> engine" where
  "undo e =
     (if undo_stack e = [] then (Inr (failure [Lit ''Nothing to undo'']), e)
      else
        (let e1 = (case get_dataframe (dataset_manager e) of
                     None \<Rightarrow> e
                   | Some current_df \<Rightarrow>
                       if \<not> empty current_df
                       then e\<lparr>redo_stack := redo_stack e @ [current_df]\<rparr> else e);
             previous_df = last (undo_stack e1);
             e2 = e1\<lparr>undo_stack := butlast (undo_stack e1)\<rparr>
         in (Inr (success_with [Lit ''Undo applied successfully''] []),
             e2\<lparr>dataset_manager := update_dataframe previous_df (dataset_manager e2)\<rparr>)))"

definition redo :: "engine \<Rightarrow> (exn + result) \<times> engine" where
  "redo e =
     (if redo_stack e = [] then (Inr (failure [Lit ''Nothing to redo'']), e)
      else
        (let e1 = (case get_dataframe (dataset_manager e) of
                     None \<Rightarrow> e
                   | Some current_df \<Rightarrow>
                       if \<not> empty current_df
                       then e\<lparr>undo_stack := undo_stack e @ [current_df]\<rparr> else e);
             next_df = last (redo_stack e1);
             e2 = e1\<lparr>redo_stack := butlast (redo_stack e1)\<rparr>
         in (Inr (success_with [Lit ''Redo applied successfully''] []),
             e2\<lparr>dataset_manager := update_dataframe next_df (dataset_manager e2)\<rparr>)))"

subsection \<open>The guarded block of a mutating operation\<close>

text \<open>
  The block of every mutating operation: save the undo state, run the transform on the
  live frame, store the frame it ends with and answer success; any exception is turned into
  a failure with the operation's prefix. A transform is given by the live frame as its
  in-place assignments leave it (up to the point it raises, when it does) and by either the
  exception or the frame handed to \<open>update_dataframe\<close> with the success message.
\<close>

type_synonym transform = "dataframe \<Rightarrow> dataframe \<times> (exn + dataframe \<times> fragment list)"

definition attempt :: "string \<Rightarrow> transform \<Rightarrow> dataframe \<Rightarrow> engine \<Rightarrow> (exn + result) \<times> engine" where
  "attempt what body df e =
     (let e1 = save_undo_state e;
          (live, r) = body df;
          e2 = e1\<lparr>dataset_manager := update_dataframe live (dataset_manager e1)\<rparr>
      in case r of
           Inl x \<Rightarrow> (Inr (failure [Lit (what @ '' failed: ''), Lit (str x)]), e2)
         | Inr (df', msg) \<Rightarrow>
             (Inr (success_with msg []),
              e2\<lparr>dataset_manager := update_dataframe df' (dataset_manager e2)\<rparr>))"

text \<open>An in-place assignment as the last step of a transform.\<close>

definition assign :: "string \<Rightarrow> coldata \<Rightarrow> fragment list \<Rightarrow> transform" where
  "assign name d msg df =
     (case setitem name d df of
        Inl x \<Rightarrow> (df, Inl x)
      | Inr df' \<Rightarrow> (df', Inr (df', msg)))"

definition must_be_numeric :: "string \<Rightarrow> fragment list" where
  "must_be_numeric column = [Lit (''Column '' @ quoted column @ '' must be numeric'')]"

definition numeric_operation ::
  "string \<Rightarrow> string \<Rightarrow> (coldata \<Rightarrow> transform) \<Rightarrow> engine \<Rightarrow> (exn + result) \<times> engine" where
  "numeric_operation what column body e =
     (case numeric_guard (must_be_numeric column) column (get_dataframe (dataset_manager e)) of
        Reject r \<Rightarrow> (Inr r, e)
      | Escape x \<Rightarrow> (Inl x, e)
      | Proceed (df, d) \<Rightarrow> attempt what (body d) df e)"

subsection \<open>Scaling\<close>

definition scale_transform ::
  "library \<Rightarrow> scaler \<Rightarrow> string \<Rightarrow> fragment list \<Rightarrow> coldata \<Rightarrow> transform" where
  "scale_transform L k target msg d df =
     (case fit L k (as_float d) of
        Inl x \<Rightarrow> (df, Inl x)
      | Inr f \<Rightarrow> assign target (NumCol (map (map_option f) (as_float d))) msg df)"

definition standardize_column :: "library \<Rightarrow> string \<Rightarrow> engine \<Rightarrow> (exn + result) \<times> engine" where
  "standardize_column L column =
     numeric_operation ''Standardization'' column
       (scale_transform L StandardScaler column
          [Lit (''Successfully standardized column '' @ quoted column)])"

definition minmax_scale_column :: "library \<Rightarrow> string \<Rightarrow> engine \<Rightarrow> (exn + result) \<times> engine" where
  "minmax_scale_column L column =
     numeric_operation ''Normalization'' column
       (scale_transform L MinMaxScaler (column @ ''_minmax'')
          [Lit (''Successfully normalized column '' @ quoted column @ '' as ''
                @ quoted (column @ ''_minmax''))])"

definition robust_scale_column :: "library \<Rightarrow> string \<Rightarrow> engine \<Rightarrow> (exn + result) \<times> engine" where
  "robust_scale_column L column =
     numeric_operation ''Robust scaling'' column
       (scale_transform L RobustScaler (column @ ''_robust'')
          [Lit (''Successfully robust scaled column '' @ quoted column @ '' as ''
                @ quoted (column @ ''_robust''))])"

subsection \<open>Transformations\<close>

text \<open>
  \<open>log_transform_column\<close>. A comparison with a missing minimum is false, so a column with
  no cell present takes the branch without shift. \<open>np.log\<close> of a missing cell is missing.
\<close>

definition log_transform :: "string \<Rightarrow> coldata \<Rightarrow> transform" where
  "log_transform column d df =
     (let new_col_name = column @ ''_log'';
          xs = as_float d;
          min_val = nanmin xs
      in if (case min_val of Some m \<Rightarrow> m \<le> 0 | None \<Rightarrow> False)
         then
           (let shift = \<bar>the min_val\<bar> + 1
            in assign new_col_name (NumCol (map (map_option (\<lambda>v. ln (v + shift))) xs))
                 [Lit (''Log transformed '' @ quoted column @ '' to '' @ quoted new_col_name
                       @ '' (shifted by ''), RealF shift, Lit '')''] df)
         else
           assign new_col_name (NumCol (map (map_option ln) xs))
             [Lit (''Log transformed '' @ quoted column @ '' to '' @ quoted new_col_name)] df)"

definition log_transform_column :: "string \<Rightarrow> engine \<Rightarrow> (exn + result) \<times> engine" where
  "log_transform_column column =
     numeric_operation ''Log transformation'' column (log_transform column)"

definition sqrt_transform :: "string \<Rightarrow> coldata \<Rightarrow> transform" where
  "sqrt_transform column d df =
     (let new_col_name = column @ ''_sqrt'';
          xs = as_float d;
          min_val = nanmin xs
      in if (case min_val of Some m \<Rightarrow> m < 0 | None \<Rightarrow> False)
         then
           (let shift = \<bar>the min_val\<bar>
            in assign new_col_name (NumCol (map (map_option (\<lambda>v. sqrt (v + shift))) xs))
                 [Lit (''Square root transformed '' @ quoted column @ '' to ''
                       @ quoted new_col_name @ '' (shifted by ''), RealF shift, Lit '')''] df)
         else
           assign new_col_name (NumCol (map (map_option sqrt) xs))
             [Lit (''Square root transformed '' @ quoted column @ '' to ''
                   @ quoted new_col_name)] df)"

definition sqrt_transform_column :: "string \<Rightarrow> engine \<Rightarrow> (exn + result) \<times> engine" where
  "sqrt_transform_column column =
     numeric_operation ''Square root transformation'' column (sqrt_transform column)"

definition bin_transform :: "library \<Rightarrow> string \<Rightarrow> int \<Rightarrow> coldata \<Rightarrow> transform" where
  "bin_transform L column n_bins d df =
     (let new_col_name = column @ ''_binned''
      in case qcut L (as_float d) n_bins of
           Inl x \<Rightarrow> (df, Inl x)
         | Inr f \<Rightarrow>
             assign new_col_name
               (NumCol (map (\<lambda>x. case x of None \<Rightarrow> None | Some v \<Rightarrow> f v) (as_float d)))
               [Lit (''Successfully binned column '' @ quoted column @ '' into ''),
                IntF n_bins, Lit ('' bins as '' @ quoted new_col_name)] df)"

definition bin_column :: "library \<Rightarrow> string \<Rightarrow> int \<Rightarrow> engine \<Rightarrow> (exn + result) \<times> engine" where
  "bin_column L column n_bins =
     numeric_operation ''Binning'' column (bin_transform L column n_bins)"

text \<open>
  \<open>create_polynomial_features\<close>: the loop over \<open>range(2, degree + 1)\<close> assigns one column
  per degree; the source column is not among the names it writes.
\<close>

fun polynomial_loop ::
  "string \<Rightarrow> real option list \<Rightarrow> int list \<Rightarrow> string list \<Rightarrow> dataframe
     \<Rightarrow> dataframe \<times> (exn + string list)" where
  "polynomial_loop column xs [] new_columns df = (df, Inr new_columns)"
| "polynomial_loop column xs (d # ds) new_columns df =
     (let col_name = column @ ''_poly'' @ string_of_int d
      in case setitem col_name (NumCol (map (map_option (\<lambda>v. v ^ nat d)) xs)) df of
           Inl x \<Rightarrow> (df, Inl x)
         | Inr df' \<Rightarrow> polynomial_loop column xs ds (new_columns @ [col_name]) df')"

fun join :: "string \<Rightarrow> string list \<Rightarrow> string" where
  "join sep [] = []"
| "join sep [s] = s"
| "join sep (s # t # ts) = s @ sep @ join sep (t # ts)"

definition polynomial_transform :: "string \<Rightarrow> int \<Rightarrow> coldata \<Rightarrow> transform" where
  "polynomial_transform column degree d df =
     (case polynomial_loop column (as_float d) [2..degree] [] df of
        (live, Inl x) \<Rightarrow> (live, Inl x)
      | (live, Inr new_columns) \<Rightarrow>
          (live, Inr (live, [Lit (''Successfully created polynomial features: ''
                                  @ join '', '' new_columns)])))"

definition create_polynomial_features ::
  "string \<Rightarrow> int \<Rightarrow> engine \<Rightarrow> (exn + result) \<times> engine" where
  "create_polynomial_features column degree =
     numeric_operation ''Polynomial features creation'' column
       (polynomial_transform column degree)"

subsection \<open>Encoding\<close>

definition column_operation ::
  "string \<Rightarrow> string \<Rightarrow> (column list \<Rightarrow> transform) \<Rightarrow> engine \<Rightarrow> (exn + result) \<times> engine" where
  "column_operation what column body e =
     (case column_guard column (get_dataframe (dataset_manager e)) of
        Reject r \<Rightarrow> (Inr r, e)
      | Escape x \<Rightarrow> (Inl x, e)
      | Proceed df \<Rightarrow> attempt what (body (getitem df column)) df e)"

text \<open>
  \<open>one_hot_encode_column\<close>: \<open>pd.concat([df, dummies], axis=1)\<close> builds a new frame, so the
  live frame stays as it was until \<open>update_dataframe\<close>.
\<close>

definition one_hot_transform :: "library \<Rightarrow> string \<Rightarrow> column list \<Rightarrow> transform" where
  "one_hot_transform L column selected df =
     (case get_dummies L selected column of
        Inl x \<Rightarrow> (df, Inl x)
      | Inr dummies \<Rightarrow>
          (df, Inr (df\<lparr>cols := cols df @ dummies\<rparr>,
                    [Lit (''Successfully one-hot encoded column '' @ quoted column @ '' into ''),
                     IntF (int (length dummies)), Lit '' columns''])))"

definition one_hot_encode_column :: "library \<Rightarrow> string \<Rightarrow> engine \<Rightarrow> (exn + result) \<times> engine" where
  "one_hot_encode_column L column =
     column_operation ''One-hot encoding'' column (one_hot_transform L column)"

text \<open>
  \<open>label_encode_column\<close>. For a label that repeats the encoder is handed a frame and
  refuses it.
\<close>

definition label_transform :: "library \<Rightarrow> string \<Rightarrow> column list \<Rightarrow> transform" where
  "label_transform L column selected df =
     (let new_col_name = column @ ''_label''
      in case selected of
           [c] \<Rightarrow>
             (case label_fit L (cells (cdata c)) of
                Inl x \<Rightarrow> (df, Inl x)
              | Inr f \<Rightarrow>
                  assign new_col_name
                    (NumCol (map (\<lambda>v. Some (of_int (f v))) (cells (cdata c))))
                    [Lit (''Successfully label encoded column '' @ quoted column @ '' as ''
                          @ quoted new_col_name)] df)
         | _ \<Rightarrow> (df, Inl \<lparr>exn_class = ValueError, str = ''y should be a 1d array''\<rparr>))"

definition label_encode_column :: "library \<Rightarrow> string \<Rightarrow> engine \<Rightarrow> (exn + result) \<times> engine" where
  "label_encode_column L column =
     column_operation ''Label encoding'' column (label_transform L column)"

subsection \<open>Principal components and custom features\<close>

text \<open>\<open>select_dtypes(include=[np.number])\<close> leaves the boolean columns out.\<close>

definition numeric_columns :: "dataframe \<Rightarrow> string list" where
  "numeric_columns df = map cname (filter (\<lambda>c. dtype_kind (cdata c) = KNumber) (cols df))"

definition pc_name :: "nat \<Rightarrow> string" where
  "pc_name i = ''PC_'' @ string_of_nat (i + 1)"

fun pc_loop ::
  "(real list \<Rightarrow> nat \<Rightarrow> real) \<Rightarrow> real list list \<Rightarrow> nat list \<Rightarrow> dataframe
     \<Rightarrow> dataframe \<times> (exn + unit)" where
  "pc_loop project X [] df = (df, Inr ())"
| "pc_loop project X (i # rest) df =
     (case setitem (pc_name i) (NumCol (map (\<lambda>r. Some (project r i)) X)) df of
        Inl x \<Rightarrow> (df, Inl x)
      | Inr df' \<Rightarrow> pc_loop project X rest df')"

text \<open>
  The matrix \<open>df[numeric_cols]\<close>, row by row. The analysis refuses a matrix with a missing
  cell before it computes anything; what else it refuses is left to the back end.
\<close>

definition matrix :: "dataframe \<Rightarrow> string list \<Rightarrow> real option list list" where
  "matrix df names =
     map (\<lambda>i. map (\<lambda>c. as_float (cdata c) ! i) (concat (map (getitem df) names)))
       [0..<len df]"

definition pca_transform :: "library \<Rightarrow> int \<Rightarrow> string list \<Rightarrow> transform" where
  "pca_transform L n_components numeric_cols df =
     (let X = matrix df numeric_cols
      in if list_ex (list_ex (\<lambda>x. x = None)) X
         then (df, Inl \<lparr>exn_class = ValueError, str = ''Input X contains NaN.''\<rparr>)
         else
           (case pca_fit L n_components (map (map the) X) of
              Inl x \<Rightarrow> (df, Inl x)
            | Inr (project, explained_variance_ratio) \<Rightarrow>
                (case pc_loop project (map (map the) X) [0..<nat n_components] df of
                   (live, Inl x) \<Rightarrow> (live, Inl x)
                 | (live, Inr u) \<Rightarrow>
                     (live,
                      Inr (live,
                           [Lit ''Successfully applied PCA with '', IntF n_components,
                            Lit '' components (variance explained: '',
                            Fixed 1 (sum_list explained_variance_ratio * 100),
                            Lit ''%)''])))))"

definition apply_pca :: "library \<Rightarrow> int \<Rightarrow> engine \<Rightarrow> (exn + result) \<times> engine" where
  "apply_pca L n_components e =
     (case table_guard (get_dataframe (dataset_manager e)) of
        Reject r \<Rightarrow> (Inr r, e)
      | Escape x \<Rightarrow> (Inl x, e)
      | Proceed df \<Rightarrow>
          (let numeric_cols = numeric_columns df
           in if length numeric_cols < 2
              then (Inr (failure [Lit ''Need at least 2 numeric columns for PCA'']), e)
              else if n_components > int (length numeric_cols)
              then (Inr (failure [Lit ''n_components must be <= '',
                                  IntF (int (length numeric_cols))]), e)
              else attempt ''PCA'' (pca_transform L n_components numeric_cols) df e))"

text \<open>\<open>df[feature_name] = result\<close>: a scalar is repeated along the index.\<close>

fun broadcast :: "pyobj \<Rightarrow> nat \<Rightarrow> coldata" where
  "broadcast (Array d) n = d"
| "broadcast (Scalar NaN) n = NumCol (replicate n None)"
| "broadcast (Scalar (BoolV b)) n = BoolCol (replicate n b)"
| "broadcast (Scalar (NumV v)) n = NumCol (replicate n (Some v))"
| "broadcast (Scalar (StrV t)) n = ObjCol (replicate n (Some t))"

definition custom_transform :: "library \<Rightarrow> string \<Rightarrow> string \<Rightarrow> transform" where
  "custom_transform L feature_name expression df =
     (case py_eval L expression df of
        Inl x \<Rightarrow> (df, Inl x)
      | Inr obj \<Rightarrow>
          assign feature_name (broadcast obj (len df))
            [Lit (''Successfully created custom feature '' @ quoted feature_name)] df)"

definition create_custom_feature ::
  "library \<Rightarrow> string \<Rightarrow> string \<Rightarrow> engine \<Rightarrow> (exn + result) \<times> engine" where
  "create_custom_feature L feature_name expression e =
     (case table_guard (get_dataframe (dataset_manager e)) of
        Reject r \<Rightarrow> (Inr r, e)
      | Escape x \<Rightarrow> (Inl x, e)
      | Proceed df \<Rightarrow>
          if feature_name = [] \<or> expression = []
          then (Inr (failure [Lit ''Feature name and expression required'']), e)
          else attempt ''Custom feature creation''
                 (custom_transform L feature_name expression) df e)"

section \<open>The operations as calls\<close>

text \<open>The mutating operations of the feature controller and of the cleaning controller.\<close>

datatype feature_call =
    Standardize string
  | MinmaxScale string
  | RobustScale string
  | LogTransform string
  | SqrtTransform string
  | BinColumn string int
  | PolynomialFeatures string int
  | OneHotEncode string
  | LabelEncode string
  | ApplyPCA int
  | CreateCustomFeature string string

fun call :: "library \<Rightarrow> feature_call \<Rightarrow> engine \<Rightarrow> (exn + result) \<times> engine" where
  "call L (Standardize c) = standardize_column L c"
| "call L (MinmaxScale c) = minmax_scale_column L c"
| "call L (RobustScale c) = robust_scale_column L c"
| "call L (LogTransform c) = log_transform_column c"
| "call L (SqrtTransform c) = sqrt_transform_column c"
| "call L (BinColumn c n) = bin_column L c n"
| "call L (PolynomialFeatures c n) = create_polynomial_features c n"
| "call L (OneHotEncode c) = one_hot_encode_column L c"
| "call L (LabelEncode c) = label_encode_column L c"
| "call L (ApplyPCA n) = apply_pca L n"
| "call L (CreateCustomFeature name expression) = create_custom_feature L name expression"

datatype cleaning_call =
    AutoClean
  | FillMean string
  | FillMode string
  | FillCustom string string
  | DropColumn string
  | RemoveDuplicates

fun clean :: "library \<Rightarrow> cleaning_call \<Rightarrow> dataset_manager \<Rightarrow> (exn + result) \<times> dataset_manager" where
  "clean L AutoClean = auto_clean"
| "clean L (FillMean c) = fill_missing_with_mean c"
| "clean L (FillMode c) = fill_missing_with_mode c"
| "clean L (FillCustom c v) = fill_missing_with_custom L c v"
| "clean L (DropColumn c) = drop_column c"
| "clean L RemoveDuplicates = remove_duplicates"

(*DEFS-END*)
section \<open>Reference notions and example tables\<close>




definition loaded :: "dataframe \<Rightarrow> dataset_manager" where
  "loaded df = \<lparr>current_dataset = Some \<lparr>data = df, file_path = None\<rparr>\<rparr>"

definition raju_table :: dataframe where
  "raju_table =
     \<lparr>row_index = [0, 1, 2],
      cols = [\<lparr>cname = ''Name'', cdata = ObjCol [Some ''Raju'', Some ''Ajay'', Some ''Raju'']\<rparr>,
              \<lparr>cname = ''Age'', cdata = NumCol [Some 25, Some 30, Some 25]\<rparr>]\<rparr>"


text \<open>A frame with two rows and no column, as \<open>auto_clean\<close> leaves it when it drops every column.\<close>

definition no_columns_frame :: dataframe where
  "no_columns_frame = \<lparr>row_index = [0, 1], cols = []\<rparr>"

text \<open>What a transform must satisfy: a raise leaves the live frame as it was, and a frame
  handed over for storing is not empty.\<close>

definition well_behaved :: "transform \<Rightarrow> bool" where
  "well_behaved body =
     (\<forall>df live. \<not> empty df \<longrightarrow>
        (\<forall>x. body df = (live, Inl x) \<longrightarrow> live = df) \<and>
        (\<forall>df' msg. body df = (live, Inr (df', msg)) \<longrightarrow> \<not> empty df'))"

text \<open>An operation either turns the call down with the engine untouched, or runs the guarded
  block on the loaded, non-empty frame.\<close>

definition turned_down :: "(exn + result) \<times> engine \<Rightarrow> engine \<Rightarrow> bool" where
  "turned_down answer e =
     ((\<exists>x. answer = (Inl x, e)) \<or> (\<exists>msg. answer = (Inr (failure msg), e)))"

definition attempted :: "(exn + result) \<times> engine \<Rightarrow> engine \<Rightarrow> bool" where
  "attempted answer e =
     (\<exists>df what body. get_dataframe (dataset_manager e) = Some df \<and> \<not> empty df
        \<and> well_behaved body \<and> answer = attempt what body df e)"

text \<open>A back end in which every library call raises.\<close>

definition unavailable :: exn where
  "unavailable = \<lparr>exn_class = OtherError, str = ''unavailable''\<rparr>"

definition offline_library :: library where
  "offline_library =
     \<lparr>fit = (\<lambda>k xs. Inl unavailable), qcut = (\<lambda>xs n. Inl unavailable),
      label_fit = (\<lambda>cs. Inl unavailable), get_dummies = (\<lambda>cs p. Inl unavailable),
      pca_fit = (\<lambda>n X. Inl unavailable), py_eval = (\<lambda>s df. Inl unavailable),
      py_float = (\<lambda>s. Inl unavailable), py_int = (\<lambda>s. Inl unavailable)\<rparr>"

definition pca_nan_table :: dataframe where
  "pca_nan_table =
     \<lparr>row_index = [0, 1],
      cols = [\<lparr>cname = ''a'', cdata = NumCol [Some 1, None]\<rparr>,
              \<lparr>cname = ''b'', cdata = NumCol [Some 3, Some 4]\<rparr>]\<rparr>"

definition pca_nan_engine :: engine where
  "pca_nan_engine =
     \<lparr>dataset_manager = loaded pca_nan_table, undo_stack = [], redo_stack = [raju_table]\<rparr>"

definition log_example_table :: dataframe where
  "log_example_table =
     \<lparr>row_index = [0, 1, 2], cols = [\<lparr>cname = ''x'', cdata = NumCol [Some (- 5), Some 0, Some 10]\<rparr>]\<rparr>"

definition log_example_result :: dataframe where
  "log_example_result =
     \<lparr>row_index = [0, 1, 2],
      cols = [\<lparr>cname = ''x'', cdata = NumCol [Some (- 5), Some 0, Some 10]\<rparr>,
              \<lparr>cname = ''x_log'', cdata = NumCol [Some 0, Some (ln 6), Some (ln 16)]\<rparr>]\<rparr>"

definition log_example_engine :: engine where
  "log_example_engine =
     \<lparr>dataset_manager = loaded log_example_table, undo_stack = [], redo_stack = [raju_table]\<rparr>"

text \<open>A back end whose analysis hands the coordinates back, with equal shares of the
  variance: it serves to exhibit a run of \<open>apply_pca\<close> that succeeds.\<close>

definition coordinate_library :: library where
  "coordinate_library =
     offline_library\<lparr>pca_fit :=
       (\<lambda>n X. Inr (\<lambda>r i. r ! i, replicate (nat n) (1 / real_of_int n)))\<rparr>"

definition pca_ok_table :: dataframe where
  "pca_ok_table =
     \<lparr>row_index = [0, 1],
      cols = [\<lparr>cname = ''a'', cdata = NumCol [Some 1, Some 2]\<rparr>,
              \<lparr>cname = ''b'', cdata = NumCol [Some 3, Some 4]\<rparr>]\<rparr>"

definition pca_ok_result :: dataframe where
  "pca_ok_result =
     \<lparr>row_index = [0, 1],
      cols = [\<lparr>cname = ''a'', cdata = NumCol [Some 1, Some 2]\<rparr>,
              \<lparr>cname = ''b'', cdata = NumCol [Some 3, Some 4]\<rparr>,
              \<lparr>cname = ''PC_1'', cdata = NumCol [Some 1, Some 2]\<rparr>,
              \<lparr>cname = ''PC_2'', cdata = NumCol [Some 3, Some 4]\<rparr>]\<rparr>"

definition pca_ok_engine :: engine where
  "pca_ok_engine = \<lparr>dataset_manager = loaded pca_ok_table, undo_stack = [], redo_stack = []\<rparr>"



definition fresh_engine :: engine where
  "fresh_engine =
     \<lparr>dataset_manager = \<lparr>current_dataset = None\<rparr>, undo_stack = [], redo_stack = []\<rparr>"

(*EXAMPLES-END*)
section \<open>Duplicates\<close>










lemma length_filter_not: "length (filter (\<lambda>x. \<not> P x) xs) = length xs - length (filter P xs)"
  using sum_length_filter_compl [of P xs] by simp







section \<open>Validation\<close>

text \<open>
  Claim C9, as stated: the table is invalid exactly when it has zero rows. The frame with two
  rows and no column refutes it: it has rows, and pandas' \<open>empty\<close> holds of it.
\<close>

theorem validate_rows_without_columns_counterexample:
  "len no_columns_frame = 2 \<and> \<not> is_valid (validate_dataframe no_columns_frame)"
  by (simp add: validate_dataframe_def no_columns_frame_def len_def empty_def)

text \<open>
  Claim C9, amended. \<open>validate_dataframe\<close> answers invalid, with the one error
  "Dataframe is empty", exactly when the table has zero rows or zero columns; a table with at
  least one row and one column is valid and has no error: missing cells and duplicate rows
  only add warnings.
\<close>

theorem validate_invalid_iff_empty:
  "is_valid (validate_dataframe df) = (0 < len df \<and> cols df \<noteq> [])
   \<and> errors (validate_dataframe df) =
       (if 0 < len df \<and> cols df \<noteq> [] then [] else [''Dataframe is empty''])
   \<and> length (warnings (validate_dataframe df)) =
       (if 0 < len df \<and> cols df \<noteq> []
        then (if 0 < missing_total df then 1 else 0)
           + (if 0 < count_true (duplicated df) then 1 else 0)
        else 0)"
  by (auto simp: validate_dataframe_def Let_def empty_def)

theorem validate_invalid_iff_empty_witness:
  "is_valid (validate_dataframe raju_table)
   \<and> errors (validate_dataframe raju_table) = []
   \<and> \<not> is_valid (validate_dataframe DataFrame)
   \<and> errors (validate_dataframe DataFrame) = [''Dataframe is empty'']"
  using validate_invalid_iff_empty [of raju_table] validate_invalid_iff_empty [of DataFrame]
  by (simp add: raju_table_def DataFrame_def len_def)

lemma table_guard_Proceed:
  "table_guard fetched = Proceed df \<longleftrightarrow> fetched = Some df \<and> \<not> empty df"
  by (auto simp: table_guard_def split: option.splits)

lemma column_guard_Proceed:
  "column_guard column fetched = Proceed df \<longleftrightarrow>
     fetched = Some df \<and> \<not> empty df \<and> column \<in> set (column_names df)"
  by (auto simp: column_guard_def table_guard_def split: option.splits)

lemma numeric_guard_Proceed:
  "numeric_guard msg column fetched = Proceed (df, d) \<Longrightarrow> fetched = Some df \<and> \<not> empty df"
  by (auto simp: numeric_guard_def column_guard_def table_guard_def
      split: option.splits checked.splits list.splits if_splits)

lemma update_same:
  "get_dataframe dm = Some df \<Longrightarrow> \<not> empty df \<Longrightarrow> update_dataframe df dm = dm"
  by (cases "current_dataset dm")
     (auto simp: get_dataframe_def update_dataframe_def DataFrame_def empty_def len_def)

lemma update_update:
  "update_dataframe a (update_dataframe b dm) = update_dataframe a dm"
  by (cases "current_dataset dm") (auto simp: update_dataframe_def)

lemma get_update:
  "get_dataframe dm = Some df \<Longrightarrow> \<not> empty df \<Longrightarrow> get_dataframe (update_dataframe a dm) = Some a"
  by (cases "current_dataset dm")
     (auto simp: get_dataframe_def update_dataframe_def DataFrame_def empty_def len_def)

lemma save_undo_state_loaded:
  "get_dataframe (dataset_manager e) = Some df \<Longrightarrow> \<not> empty df \<Longrightarrow>
   save_undo_state e = e\<lparr>undo_stack := undo_stack e @ [df], redo_stack := []\<rparr>"
  by (simp add: save_undo_state_def)

lemma attempt_failure:
  assumes "get_dataframe (dataset_manager e) = Some df" "\<not> empty df" "well_behaved body"
    and "body df = (live, Inl x)"
  shows "attempt what body df e =
           (Inr (failure [Lit (what @ '' failed: ''), Lit (str x)]),
            e\<lparr>undo_stack := undo_stack e @ [df], redo_stack := []\<rparr>)"
proof -
  have "live = df" using assms by (auto simp: well_behaved_def)
  then show ?thesis
    using assms by (simp add: attempt_def save_undo_state_loaded update_same)
qed

lemma attempt_success:
  assumes "get_dataframe (dataset_manager e) = Some df" "\<not> empty df"
    and "body df = (live, Inr (df', msg))"
  shows "attempt what body df e =
           (Inr (success_with msg []),
            \<lparr>dataset_manager = update_dataframe df' (dataset_manager e),
             undo_stack = undo_stack e @ [df], redo_stack = []\<rparr>)"
  using assms by (simp add: attempt_def save_undo_state_loaded update_update)

lemma setitem_Inr:
  "setitem name d df = Inr df' \<Longrightarrow>
     len df' = len df \<and> length (cells d) = len df \<and> (\<not> empty df \<longrightarrow> \<not> empty df')"
  by (auto simp: setitem_def empty_def len_def split: if_splits)

lemma setitem_ok:
  "length (cells d) = len df \<Longrightarrow> \<exists>df'. setitem name d df = Inr df'"
  by (simp add: setitem_def)

lemma well_behaved_assign: "well_behaved (assign name d msg)"
  by (auto simp: well_behaved_def assign_def split: sum.splits dest: setitem_Inr)

lemma well_behaved_scale: "well_behaved (scale_transform L k target msg d)"
  using well_behaved_assign
  by (auto simp: well_behaved_def scale_transform_def split: sum.splits)

lemma well_behaved_log: "well_behaved (log_transform column d)"
  using well_behaved_assign
  by (auto simp: well_behaved_def log_transform_def Let_def split: if_splits)

lemma well_behaved_sqrt: "well_behaved (sqrt_transform column d)"
  using well_behaved_assign
  by (auto simp: well_behaved_def sqrt_transform_def Let_def split: if_splits)

lemma well_behaved_bin: "well_behaved (bin_transform L column n d)"
  using well_behaved_assign
  by (auto simp: well_behaved_def bin_transform_def Let_def split: sum.splits)

lemma well_behaved_label: "well_behaved (label_transform L column selected)"
  using well_behaved_assign
  by (auto simp: well_behaved_def label_transform_def Let_def split: sum.splits list.splits)

lemma well_behaved_custom: "well_behaved (custom_transform L name expression)"
  using well_behaved_assign
  by (auto simp: well_behaved_def custom_transform_def split: sum.splits)

lemma well_behaved_one_hot: "well_behaved (one_hot_transform L column selected)"
  by (auto simp: well_behaved_def one_hot_transform_def empty_def len_def split: sum.splits)

lemma polynomial_loop_aligned:
  "length xs = len df \<Longrightarrow>
   \<exists>live names. polynomial_loop column xs ds acc df = (live, Inr names)
      \<and> len live = len df \<and> (\<not> empty df \<longrightarrow> \<not> empty live)"
proof (induction ds arbitrary: acc df)
  case Nil
  then show ?case by simp
next
  case (Cons d ds)
  let ?d = "NumCol (map (map_option (\<lambda>v. v ^ nat d)) xs)"
  obtain df' where s: "setitem (column @ ''_poly'' @ string_of_int d) ?d df = Inr df'"
    using setitem_ok [of ?d df] Cons.prems by auto
  then have l: "len df' = len df" "\<not> empty df \<longrightarrow> \<not> empty df'"
    using setitem_Inr by blast+
  from Cons.IH [of df' "acc @ [column @ ''_poly'' @ string_of_int d]"] Cons.prems l
  show ?case using s by (auto simp: Let_def)
qed

lemma polynomial_loop_failure:
  "polynomial_loop column xs ds acc df = (live, Inl x) \<Longrightarrow> live = df"
proof (cases ds)
  case Nil
  assume "polynomial_loop column xs ds acc df = (live, Inl x)"
  then show ?thesis using Nil by simp
next
  case (Cons d rest)
  assume a: "polynomial_loop column xs ds acc df = (live, Inl x)"
  let ?d = "NumCol (map (map_option (\<lambda>v. v ^ nat d)) xs)"
  show ?thesis
  proof (cases "setitem (column @ ''_poly'' @ string_of_int d) ?d df")
    case (Inl y)
    then show ?thesis using a Cons by (simp add: Let_def)
  next
    case (Inr df')
    then have "length xs = len df'" using setitem_Inr [OF Inr] by simp
    then obtain l n where "polynomial_loop column xs rest (acc @ [column @ ''_poly'' @ string_of_int d]) df' = (l, Inr n)"
      using polynomial_loop_aligned by blast
    then show ?thesis using a Cons Inr by (simp add: Let_def)
  qed
qed

lemma polynomial_loop_success:
  "polynomial_loop column xs ds acc df = (live, Inr names) \<Longrightarrow> \<not> empty df \<Longrightarrow> \<not> empty live"
proof (induction ds arbitrary: acc df)
  case Nil
  then show ?case by simp
next
  case (Cons d ds)
  then show ?case
    by (auto simp: Let_def split: sum.splits dest: setitem_Inr)
qed

lemma well_behaved_polynomial: "well_behaved (polynomial_transform column degree d)"
  unfolding well_behaved_def polynomial_transform_def
  by (auto split: prod.splits sum.splits
      dest: polynomial_loop_failure polynomial_loop_success)

lemma pc_loop_aligned:
  "length X = len df \<Longrightarrow>
   \<exists>live. pc_loop project X is df = (live, Inr ())
      \<and> len live = len df \<and> (\<not> empty df \<longrightarrow> \<not> empty live)"
proof (induction "is" arbitrary: df)
  case Nil
  then show ?case by simp
next
  case (Cons i rest)
  let ?d = "NumCol (map (\<lambda>r. Some (project r i)) X)"
  obtain df' where s: "setitem (pc_name i) ?d df = Inr df'"
    using setitem_ok [of ?d df] Cons.prems by auto
  then have l: "len df' = len df" "\<not> empty df \<longrightarrow> \<not> empty df'"
    using setitem_Inr by blast+
  from Cons.IH [of df'] Cons.prems l show ?case using s by auto
qed

lemma length_matrix: "length (matrix df names) = len df"
  by (simp add: matrix_def)

lemma well_behaved_pca: "well_behaved (pca_transform L n names)"
proof -
  have "\<exists>live. pc_loop project (map (map the) (matrix df names)) is df = (live, Inr ())
      \<and> (\<not> empty df \<longrightarrow> \<not> empty live)" for project "is" df
    using pc_loop_aligned [of "map (map the) (matrix df names)" df project "is"]
    by (auto simp: length_matrix)
  then show ?thesis
    unfolding well_behaved_def pca_transform_def Let_def
    by (auto split: prod.splits sum.splits if_splits) (metis Pair_inject sum.inject(2) sum.distinct(1))+
qed

lemma table_guard_Reject: "table_guard fetched = Reject r \<Longrightarrow> \<exists>msg. r = failure msg"
  by (auto simp: table_guard_def no_dataset_def split: option.splits if_splits)

lemma table_guard_Escape: "table_guard fetched \<noteq> Escape x"
  by (auto simp: table_guard_def split: option.splits)

lemma column_guard_Reject: "column_guard column fetched = Reject r \<Longrightarrow> \<exists>msg. r = failure msg"
  by (auto simp: column_guard_def not_found_def split: checked.splits if_splits
      dest: table_guard_Reject)

lemma numeric_guard_Reject:
  "numeric_guard m column fetched = Reject r \<Longrightarrow> \<exists>msg. r = failure msg"
  by (auto simp: numeric_guard_def split: checked.splits if_splits list.splits
      dest: column_guard_Reject)

lemma numeric_operation_cases:
  assumes "\<And>d. well_behaved (body d)"
  shows "turned_down (numeric_operation what column body e) e
       \<or> attempted (numeric_operation what column body e) e"
proof (cases "numeric_guard (must_be_numeric column) column (get_dataframe (dataset_manager e))")
  case (Proceed p)
  obtain df d where p: "p = (df, d)" by (cases p)
  have "get_dataframe (dataset_manager e) = Some df \<and> \<not> empty df"
    using numeric_guard_Proceed Proceed p by blast
  then have "attempted (numeric_operation what column body e) e"
    unfolding attempted_def using Proceed p assms
    by (auto simp: numeric_operation_def)
  then show ?thesis ..
next
  case (Reject r)
  then show ?thesis
    using numeric_guard_Reject [OF Reject] by (auto simp: numeric_operation_def turned_down_def)
next
  case (Escape x)
  then show ?thesis by (auto simp: numeric_operation_def turned_down_def)
qed

lemma column_operation_cases:
  assumes "\<And>s. well_behaved (body s)"
  shows "turned_down (column_operation what column body e) e
       \<or> attempted (column_operation what column body e) e"
proof (cases "column_guard column (get_dataframe (dataset_manager e))")
  case (Proceed df)
  then have "get_dataframe (dataset_manager e) = Some df \<and> \<not> empty df"
    by (simp add: column_guard_Proceed)
  then have "attempted (column_operation what column body e) e"
    unfolding attempted_def using Proceed assms
    by (auto simp: column_operation_def)
  then show ?thesis ..
next
  case (Reject r)
  then show ?thesis
    using column_guard_Reject [OF Reject] by (auto simp: column_operation_def turned_down_def)
next
  case (Escape x)
  then show ?thesis by (auto simp: column_operation_def turned_down_def)
qed

lemma apply_pca_cases: "turned_down (apply_pca L n e) e \<or> attempted (apply_pca L n e) e"
proof (cases "table_guard (get_dataframe (dataset_manager e))")
  case (Proceed df)
  then have g: "get_dataframe (dataset_manager e) = Some df \<and> \<not> empty df"
    by (simp add: table_guard_Proceed)
  show ?thesis
  proof (cases "length (numeric_columns df) < 2 \<or> n > int (length (numeric_columns df))")
    case True
    then have "turned_down (apply_pca L n e) e"
      using Proceed by (auto simp: apply_pca_def turned_down_def Let_def)
    then show ?thesis ..
  next
    case False
    then have "apply_pca L n e = attempt ''PCA'' (pca_transform L n (numeric_columns df)) df e"
      using Proceed by (auto simp: apply_pca_def Let_def)
    then have "attempted (apply_pca L n e) e"
      unfolding attempted_def using g well_behaved_pca by metis
    then show ?thesis ..
  qed
next
  case (Reject r)
  then show ?thesis
    using table_guard_Reject [OF Reject] by (auto simp: apply_pca_def turned_down_def)
next
  case (Escape x)
  then show ?thesis by (simp add: table_guard_Escape)
qed

lemma create_custom_feature_cases:
  "turned_down (create_custom_feature L name expression e) e
   \<or> attempted (create_custom_feature L name expression e) e"
proof (cases "table_guard (get_dataframe (dataset_manager e))")
  case (Proceed df)
  then have g: "get_dataframe (dataset_manager e) = Some df \<and> \<not> empty df"
    by (simp add: table_guard_Proceed)
  show ?thesis
  proof (cases "name = [] \<or> expression = []")
    case True
    then have "turned_down (create_custom_feature L name expression e) e"
      using Proceed by (auto simp: create_custom_feature_def turned_down_def)
    then show ?thesis ..
  next
    case False
    then have "create_custom_feature L name expression e =
        attempt ''Custom feature creation'' (custom_transform L name expression) df e"
      using Proceed by (auto simp: create_custom_feature_def)
    then have "attempted (create_custom_feature L name expression e) e"
      unfolding attempted_def using g well_behaved_custom by metis
    then show ?thesis ..
  qed
next
  case (Reject r)
  then show ?thesis
    using table_guard_Reject [OF Reject] by (auto simp: create_custom_feature_def turned_down_def)
next
  case (Escape x)
  then show ?thesis by (simp add: table_guard_Escape)
qed

lemma call_cases: "turned_down (call L c e) e \<or> attempted (call L c e) e"
proof (cases c)
  case (Standardize x)
  then show ?thesis
    using numeric_operation_cases [OF well_behaved_scale] by (simp add: standardize_column_def)
next
  case (MinmaxScale x)
  then show ?thesis
    using numeric_operation_cases [OF well_behaved_scale] by (simp add: minmax_scale_column_def)
next
  case (RobustScale x)
  then show ?thesis
    using numeric_operation_cases [OF well_behaved_scale] by (simp add: robust_scale_column_def)
next
  case (LogTransform x)
  then show ?thesis
    using numeric_operation_cases [OF well_behaved_log] by (simp add: log_transform_column_def)
next
  case (SqrtTransform x)
  then show ?thesis
    using numeric_operation_cases [OF well_behaved_sqrt] by (simp add: sqrt_transform_column_def)
next
  case (BinColumn x n)
  then show ?thesis
    using numeric_operation_cases [OF well_behaved_bin] by (simp add: bin_column_def)
next
  case (PolynomialFeatures x n)
  then show ?thesis
    using numeric_operation_cases [OF well_behaved_polynomial]
    by (simp add: create_polynomial_features_def)
next
  case (OneHotEncode x)
  then show ?thesis
    using column_operation_cases [OF well_behaved_one_hot] by (simp add: one_hot_encode_column_def)
next
  case (LabelEncode x)
  then show ?thesis
    using column_operation_cases [OF well_behaved_label] by (simp add: label_encode_column_def)
next
  case (ApplyPCA n)
  then show ?thesis using apply_pca_cases by simp
next
  case (CreateCustomFeature name expression)
  then show ?thesis using create_custom_feature_cases by simp
qed

lemma well_behaved_success:
  "well_behaved body \<Longrightarrow> \<not> empty df \<Longrightarrow> body df = (live, Inr (df', msg)) \<Longrightarrow> \<not> empty df'"
  unfolding well_behaved_def by blast

text \<open>The two ways the guarded block ends.\<close>

lemma attempted_outcome:
  assumes "attempted answer e"
  shows "\<exists>df. get_dataframe (dataset_manager e) = Some df \<and> \<not> empty df \<and>
          ((\<exists>what x. answer =
               (Inr (failure [Lit (what @ '' failed: ''), Lit x]),
                e\<lparr>undo_stack := undo_stack e @ [df], redo_stack := []\<rparr>))
         \<or> (\<exists>df' msg. \<not> empty df' \<and> answer =
               (Inr (success_with msg []),
                \<lparr>dataset_manager = update_dataframe df' (dataset_manager e),
                 undo_stack = undo_stack e @ [df], redo_stack = []\<rparr>)))"
proof -
  from assms obtain df what body where
    g: "get_dataframe (dataset_manager e) = Some df" "\<not> empty df"
    and wb: "well_behaved body" and a: "answer = attempt what body df e"
    unfolding attempted_def by blast
  obtain live r where b: "body df = (live, r)" by (cases "body df")
  show ?thesis
  proof (cases r)
    case (Inl x)
    have "answer = (Inr (failure [Lit (what @ '' failed: ''), Lit (str x)]),
                e\<lparr>undo_stack := undo_stack e @ [df], redo_stack := []\<rparr>)"
      unfolding a using attempt_failure [OF g wb, of live x what] b Inl by simp
    then have "\<exists>what x. answer =
               (Inr (failure [Lit (what @ '' failed: ''), Lit x]),
                e\<lparr>undo_stack := undo_stack e @ [df], redo_stack := []\<rparr>)"
      by (intro exI)
    with g show ?thesis by (intro exI [of _ df]) simp
  next
    case (Inr p)
    obtain df' msg where p: "p = (df', msg)" by (cases p)
    have ne: "\<not> empty df'" using well_behaved_success [OF wb g(2)] b Inr p by simp
    have "answer = (Inr (success_with msg []),
                \<lparr>dataset_manager = update_dataframe df' (dataset_manager e),
                 undo_stack = undo_stack e @ [df], redo_stack = []\<rparr>)"
      unfolding a using attempt_success [OF g, of body live df' msg what] b Inr p by simp
    with ne have "\<exists>df' msg. \<not> empty df' \<and> answer =
               (Inr (success_with msg []),
                \<lparr>dataset_manager = update_dataframe df' (dataset_manager e),
                 undo_stack = undo_stack e @ [df], redo_stack = []\<rparr>)"
      by (intro exI [of _ df'] exI [of _ msg]) simp
    with g show ?thesis by (intro exI [of _ df]) simp
  qed
qed


lemma log_example_run:
  "log_transform_column ''x'' log_example_engine =
     (Inr (success_with
             [Lit (''Log transformed '' @ quoted ''x'' @ '' to '' @ quoted ''x_log''
                   @ '' (shifted by ''), RealF 6, Lit '')''] []),
      \<lparr>dataset_manager = loaded log_example_result,
       undo_stack = [log_example_table], redo_stack = []\<rparr>)"
proof -
  have g: "get_dataframe (dataset_manager log_example_engine) = Some log_example_table"
    by (simp add: log_example_engine_def loaded_def get_dataframe_def)
  have ne: "\<not> empty log_example_table" by (simp add: log_example_table_def empty_def len_def)
  have ng: "numeric_guard (must_be_numeric ''x'') ''x'' (Some log_example_table)
            = Proceed (log_example_table, NumCol [Some (- 5), Some 0, Some 10])"
    by (simp add: numeric_guard_def column_guard_def table_guard_def ne)
       (simp add: log_example_table_def column_names_def getitem_def)
  have b: "log_transform ''x'' (NumCol [Some (- 5), Some 0, Some 10]) log_example_table =
        (log_example_result, Inr (log_example_result,
             [Lit (''Log transformed '' @ quoted ''x'' @ '' to '' @ quoted ''x_log''
                   @ '' (shifted by ''), RealF 6, Lit '')'']))"
    by (simp add: log_transform_def Let_def nanmin_def dropna_values_def assign_def setitem_def
        log_example_table_def log_example_result_def len_def column_names_def)
  show ?thesis
    unfolding log_transform_column_def numeric_operation_def g ng
    using attempt_success [where body = "log_transform ''x'' (NumCol [Some (- 5), Some 0, Some 10])"
        and what = "''Log transformation''", OF g ne b]
    by (simp add: log_example_engine_def loaded_def update_dataframe_def)
qed

section \<open>Failure and the undo stack\<close>




section \<open>Undo and redo after a successful call\<close>



section \<open>The push clears the redo stack\<close>

text \<open>
  Claim C4. \<open>_save_undo_state\<close> is the single push: it either changes neither stack, or
  appends the current table to the undo stack and empties the redo stack in the same step.
  A mutating call that changes the undo stack has appended the table of before the call and
  left the redo stack empty, and every call that succeeds is such a call.
\<close>

theorem snapshot_push_clears_redo:
  "((undo_stack (save_undo_state e) = undo_stack e \<and> redo_stack (save_undo_state e) = redo_stack e)
     \<or> (\<exists>df. get_dataframe (dataset_manager e) = Some df
           \<and> undo_stack (save_undo_state e) = undo_stack e @ [df]
           \<and> redo_stack (save_undo_state e) = []))
   \<and> (call L c e = (answer, e') \<and> undo_stack e' \<noteq> undo_stack e \<longrightarrow>
         (\<exists>df. get_dataframe (dataset_manager e) = Some df
            \<and> undo_stack e' = undo_stack e @ [df]) \<and> redo_stack e' = [])
   \<and> (call L c e = (Inr r, e') \<and> success r \<longrightarrow>
         undo_stack e' \<noteq> undo_stack e \<and> redo_stack e' = [])"
proof (intro conjI impI)
  show "(undo_stack (save_undo_state e) = undo_stack e \<and> redo_stack (save_undo_state e) = redo_stack e)
     \<or> (\<exists>df. get_dataframe (dataset_manager e) = Some df
           \<and> undo_stack (save_undo_state e) = undo_stack e @ [df]
           \<and> redo_stack (save_undo_state e) = [])"
    by (auto simp: save_undo_state_def split: option.splits)
next
  assume a: "call L c e = (answer, e') \<and> undo_stack e' \<noteq> undo_stack e"
  then have "\<not> turned_down (call L c e) e" by (auto simp: turned_down_def)
  with call_cases [of L c e] have "attempted (call L c e) e" by blast
  from attempted_outcome [OF this] a
  show "(\<exists>df. get_dataframe (dataset_manager e) = Some df
            \<and> undo_stack e' = undo_stack e @ [df])" and "redo_stack e' = []"
    by auto
next
  assume a: "call L c e = (Inr r, e') \<and> success r"
  then have "\<not> turned_down (call L c e) e" by (auto simp: turned_down_def failure_def)
  with call_cases [of L c e] have "attempted (call L c e) e" by blast
  from attempted_outcome [OF this] a
  show "undo_stack e' \<noteq> undo_stack e" and "redo_stack e' = []"
    by (auto simp: failure_def)
qed

theorem snapshot_push_clears_redo_witness:
  "redo_stack log_example_engine = [raju_table]
   \<and> undo_stack (save_undo_state log_example_engine) = [log_example_table]
   \<and> redo_stack (save_undo_state log_example_engine) = []
   \<and> undo_stack (snd (call offline_library (LogTransform ''x'') log_example_engine))
       = [log_example_table]
   \<and> redo_stack (snd (call offline_library (LogTransform ''x'') log_example_engine)) = []"
proof -
  let ?r = "success_with
             [Lit (''Log transformed '' @ quoted ''x'' @ '' to '' @ quoted ''x_log''
                   @ '' (shifted by ''), RealF 6, Lit '')''] []"
  let ?e' = "\<lparr>dataset_manager = loaded log_example_result,
       undo_stack = [log_example_table], redo_stack = []\<rparr>"
  have c: "call offline_library (LogTransform ''x'') log_example_engine = (Inr ?r, ?e')"
    by (simp add: log_example_run)
  have s: "success ?r" by (simp add: success_with_def)
  have g: "get_dataframe (dataset_manager log_example_engine) = Some log_example_table"
    by (simp add: log_example_engine_def loaded_def get_dataframe_def)
  have u: "undo_stack log_example_engine = []" "redo_stack log_example_engine = [raju_table]"
    by (simp_all add: log_example_engine_def)
  note t = snapshot_push_clears_redo [of log_example_engine offline_library
      "LogTransform ''x''" "Inr ?r" ?e' ?r]
  from t c s have "redo_stack ?e' = []" by blast
  moreover have "undo_stack (save_undo_state log_example_engine) = [log_example_table]
      \<and> redo_stack (save_undo_state log_example_engine) = []"
    using g u by (simp add: save_undo_state_def) (simp add: log_example_table_def empty_def len_def)
  ultimately show ?thesis using c u by simp
qed

section \<open>Principal components\<close>

lemma digit_inj:
  "a < 10 \<Longrightarrow> b < 10 \<Longrightarrow> ''0123456789'' ! a = ''0123456789'' ! b \<Longrightarrow> a = b"
proof -
  have d: "distinct ''0123456789''" by simp
  assume "a < 10" "b < 10" "''0123456789'' ! a = ''0123456789'' ! b"
  then show "a = b" using nth_eq_iff_index_eq [OF d, of a b] by simp
qed

lemma string_of_nat_small: "n < 10 \<Longrightarrow> string_of_nat n = [''0123456789'' ! n]"
  by (subst string_of_nat.simps) simp

lemma string_of_nat_large:
  "\<not> n < 10 \<Longrightarrow> string_of_nat n = string_of_nat (n div 10) @ [''0123456789'' ! (n mod 10)]"
  by (subst string_of_nat.simps) simp

lemma string_of_nat_nonempty: "string_of_nat n \<noteq> []"
  by (cases "n < 10") (simp_all add: string_of_nat_small string_of_nat_large)

lemma string_of_nat_inj: "string_of_nat m = string_of_nat n \<Longrightarrow> m = n"
proof (induction m arbitrary: n rule: less_induct)
  case (less m)
  note eq = less.prems
  show ?case
  proof (cases "m < 10")
    case True
    note sm = string_of_nat_small [OF True]
    show ?thesis
    proof (cases "n < 10")
      case n: True
      note sn = string_of_nat_small [OF n]
      from eq have "[''0123456789'' ! m] = [''0123456789'' ! n]"
        by (simp only: sm sn)
      then have "''0123456789'' ! m = ''0123456789'' ! n" by (simp only: list.inject)
      then show ?thesis by (rule digit_inj [OF True n])
    next
      case False
      note sn = string_of_nat_large [OF False]
      from eq have "[''0123456789'' ! m] = string_of_nat (n div 10) @ [''0123456789'' ! (n mod 10)]"
        by (simp only: sm sn)
      then have "length [''0123456789'' ! m]
          = length (string_of_nat (n div 10) @ [''0123456789'' ! (n mod 10)])"
        by (rule arg_cong)
      then have "length (string_of_nat (n div 10)) = 0" by simp
      then show ?thesis using string_of_nat_nonempty [of "n div 10"] by (simp only: length_0_conv)
    qed
  next
    case False
    note sm = string_of_nat_large [OF False]
    show ?thesis
    proof (cases "n < 10")
      case True
      note sn = string_of_nat_small [OF True]
      from eq have "string_of_nat (m div 10) @ [''0123456789'' ! (m mod 10)] = [''0123456789'' ! n]"
        by (simp only: sm sn)
      then have "length (string_of_nat (m div 10) @ [''0123456789'' ! (m mod 10)])
          = length [''0123456789'' ! n]"
        by (rule arg_cong)
      then have "length (string_of_nat (m div 10)) = 0" by simp
      then show ?thesis using string_of_nat_nonempty [of "m div 10"] by (simp only: length_0_conv)
    next
      case n: False
      note sn = string_of_nat_large [OF n]
      from eq have e: "string_of_nat (m div 10) @ [''0123456789'' ! (m mod 10)]
          = string_of_nat (n div 10) @ [''0123456789'' ! (n mod 10)]"
        by (simp only: sm sn)
      then have q: "string_of_nat (m div 10) = string_of_nat (n div 10)"
        and r: "''0123456789'' ! (m mod 10) = ''0123456789'' ! (n mod 10)"
        by (simp_all only: append1_eq_conv)
      have "m div 10 < m" using False by simp
      from less.IH [OF this q] have dq: "m div 10 = n div 10" .
      have dr: "m mod 10 = n mod 10" by (rule digit_inj [OF _ _ r]) simp_all
      have "m = 10 * (m div 10) + m mod 10" by simp
      also have "\<dots> = 10 * (n div 10) + n mod 10" by (simp only: dq dr)
      also have "\<dots> = n" by simp
      finally show ?thesis .
    qed
  qed
qed

lemma pc_name_inj: "pc_name i = pc_name j \<Longrightarrow> i = j"
proof -
  assume "pc_name i = pc_name j"
  then have "string_of_nat (i + 1) = string_of_nat (j + 1)"
    by (simp only: pc_name_def same_append_eq)
  then have "i + 1 = j + 1" by (rule string_of_nat_inj)
  then show "i = j" by simp
qed

lemma names_replace:
  "map cname (map (\<lambda>c. if cname c = name then c\<lparr>cdata := d\<rparr> else c) cs) = map cname cs"
  by (induction cs) simp_all

lemma setitem_cases:
  assumes "setitem name d df = Inr df'"
  shows "length (cells d) = len df
       \<and> (if name \<in> set (column_names df)
          then df' = df\<lparr>cols := map (\<lambda>c. if cname c = name then c\<lparr>cdata := d\<rparr> else c) (cols df)\<rparr>
          else df' = df\<lparr>cols := cols df @ [\<lparr>cname = name, cdata = d\<rparr>]\<rparr>)"
proof (cases "length (cells d) = len df")
  case False
  then show ?thesis using assms by (simp add: setitem_def)
next
  case True
  show ?thesis
  proof (cases "name \<in> set (column_names df)")
    case n: True
    then show ?thesis using assms True by (simp add: setitem_def)
  next
    case n: False
    then show ?thesis using assms True by (simp add: setitem_def)
  qed
qed

lemma setitem_names:
  assumes "setitem name d df = Inr df'"
  shows "column_names df' =
           column_names df @ (if name \<in> set (column_names df) then [] else [name])"
proof (cases "name \<in> set (column_names df)")
  case True
  then have "df' = df\<lparr>cols := map (\<lambda>c. if cname c = name then c\<lparr>cdata := d\<rparr> else c) (cols df)\<rparr>"
    using setitem_cases [OF assms] by simp
  then show ?thesis using True by (simp add: column_names_def names_replace)
next
  case False
  then have "df' = df\<lparr>cols := cols df @ [\<lparr>cname = name, cdata = d\<rparr>]\<rparr>"
    using setitem_cases [OF assms] by simp
  then show ?thesis using False by (simp add: column_names_def)
qed

lemma filter_other_name:
  "nm \<noteq> name \<Longrightarrow>
   filter (\<lambda>c. cname c = nm) (map (\<lambda>c. if cname c = name then c\<lparr>cdata := d\<rparr> else c) cs)
     = filter (\<lambda>c. cname c = nm) cs"
  by (induction cs) simp_all

lemma filter_same_name:
  "filter (\<lambda>c. cname c = name) (map (\<lambda>c. if cname c = name then c\<lparr>cdata := d\<rparr> else c) cs)
     = map (\<lambda>c. c\<lparr>cdata := d\<rparr>) (filter (\<lambda>c. cname c = name) cs)"
  by (induction cs) simp_all

lemma setitem_getitem_other:
  assumes "setitem name d df = Inr df'" and "nm \<noteq> name"
  shows "getitem df' nm = getitem df nm"
proof (cases "name \<in> set (column_names df)")
  case True
  then have "df' = df\<lparr>cols := map (\<lambda>c. if cname c = name then c\<lparr>cdata := d\<rparr> else c) (cols df)\<rparr>"
    using setitem_cases [OF assms(1)] by simp
  then show ?thesis using assms(2) by (simp add: getitem_def filter_other_name)
next
  case False
  then have "df' = df\<lparr>cols := cols df @ [\<lparr>cname = name, cdata = d\<rparr>]\<rparr>"
    using setitem_cases [OF assms(1)] by simp
  then show ?thesis using assms(2) by (simp add: getitem_def)
qed

lemma setitem_getitem_same:
  assumes "setitem name d df = Inr df'"
  shows "getitem df' name \<noteq> [] \<and> (\<forall>c \<in> set (getitem df' name). cdata c = d)"
proof (cases "name \<in> set (column_names df)")
  case True
  then have e: "df' = df\<lparr>cols := map (\<lambda>c. if cname c = name then c\<lparr>cdata := d\<rparr> else c) (cols df)\<rparr>"
    using setitem_cases [OF assms] by simp
  from True obtain c where "c \<in> set (cols df)" "cname c = name"
    unfolding column_names_def by (metis imageE list.set_map)
  then have "filter (\<lambda>c. cname c = name) (cols df) \<noteq> []"
    unfolding filter_empty_conv by blast
  then show ?thesis by (simp add: e getitem_def filter_same_name)
next
  case False
  then have e: "df' = df\<lparr>cols := cols df @ [\<lparr>cname = name, cdata = d\<rparr>]\<rparr>"
    using setitem_cases [OF assms] by simp
  have "filter (\<lambda>c. cname c = name) (cols df) = []"
    unfolding filter_empty_conv using False unfolding column_names_def by force
  then show ?thesis by (simp add: e getitem_def)
qed

lemma pc_loop_result:
  assumes "length X = len df" and "distinct js"
  shows "\<exists>live. pc_loop project X js df = (live, Inr ())
      \<and> row_index live = row_index df
      \<and> column_names live =
            column_names df @ filter (\<lambda>nm. nm \<notin> set (column_names df)) (map pc_name js)
      \<and> (\<forall>nm. nm \<notin> pc_name ` set js \<longrightarrow> getitem live nm = getitem df nm)
      \<and> (\<forall>i \<in> set js. getitem live (pc_name i) \<noteq> []
            \<and> (\<forall>c \<in> set (getitem live (pc_name i)).
                  cdata c = NumCol (map (\<lambda>r. Some (project r i)) X)))"
  using assms
proof (induction js arbitrary: df)
  case Nil
  then show ?case by simp
next
  case (Cons i rest)
  let ?d = "\<lambda>i. NumCol (map (\<lambda>r. Some (project r i)) X)"
  have "length (cells (?d i)) = len df" using Cons.prems by simp
  then obtain df1 where s: "setitem (pc_name i) (?d i) df = Inr df1"
    using setitem_ok [of "?d i" df "pc_name i"] by blast
  have idx: "row_index df1 = row_index df"
    using s by (auto simp: setitem_def split: if_splits)
  then have l: "length X = len df1" using Cons.prems by (simp add: len_def)
  from Cons.prems have dr: "distinct rest" and ni: "i \<notin> set rest" by simp_all
  from Cons.IH [OF l dr] obtain live where
    ih: "pc_loop project X rest df1 = (live, Inr ())
      \<and> row_index live = row_index df1
      \<and> column_names live =
            column_names df1 @ filter (\<lambda>nm. nm \<notin> set (column_names df1)) (map pc_name rest)
      \<and> (\<forall>nm. nm \<notin> pc_name ` set rest \<longrightarrow> getitem live nm = getitem df1 nm)
      \<and> (\<forall>i \<in> set rest. getitem live (pc_name i) \<noteq> []
            \<and> (\<forall>c \<in> set (getitem live (pc_name i)). cdata c = ?d i))" ..
  note run = ih [THEN conjunct1]
  note ri = ih [THEN conjunct2, THEN conjunct1]
  note nm = ih [THEN conjunct2, THEN conjunct2, THEN conjunct1]
  note other = ih [THEN conjunct2, THEN conjunct2, THEN conjunct2, THEN conjunct1, rule_format]
  note mine = ih [THEN conjunct2, THEN conjunct2, THEN conjunct2, THEN conjunct2, rule_format]
  have fresh: "pc_name i \<notin> pc_name ` set rest"
    using ni pc_name_inj by auto
  have names: "column_names live =
     column_names df @ filter (\<lambda>nm. nm \<notin> set (column_names df)) (map pc_name (i # rest))"
  proof (cases "pc_name i \<in> set (column_names df)")
    case True
    then show ?thesis using nm setitem_names [OF s] by simp
  next
    case False
    have "filter (\<lambda>nm. nm \<notin> set (column_names df @ [pc_name i])) (map pc_name rest)
        = filter (\<lambda>nm. nm \<notin> set (column_names df)) (map pc_name rest)"
      using fresh by (intro filter_cong) (auto simp: image_iff)
    then show ?thesis using nm setitem_names [OF s] False by simp
  qed
  have others: "getitem live nm = getitem df nm" if "nm \<notin> pc_name ` set (i # rest)" for nm
    using that other [of nm] setitem_getitem_other [OF s, of nm] by auto
  have head: "getitem live (pc_name i) \<noteq> []
            \<and> (\<forall>c \<in> set (getitem live (pc_name i)). cdata c = ?d i)"
    using other [OF fresh] setitem_getitem_same [OF s] by simp
  have r1: "pc_loop project X (i # rest) df = (live, Inr ())" using s run by simp
  have r2: "row_index live = row_index df" using ri idx by simp
  have r3: "\<forall>nm. nm \<notin> pc_name ` set (i # rest) \<longrightarrow> getitem live nm = getitem df nm"
    using others by blast
  have r4: "\<forall>j \<in> set (i # rest). getitem live (pc_name j) \<noteq> []
            \<and> (\<forall>c \<in> set (getitem live (pc_name j)). cdata c = ?d j)"
  proof
    fix j assume "j \<in> set (i # rest)"
    then have "j = i \<or> j \<in> set rest" by simp
    then show "getitem live (pc_name j) \<noteq> []
            \<and> (\<forall>c \<in> set (getitem live (pc_name j)). cdata c = ?d j)"
      using head mine [of j] by (elim disjE) blast+
  qed
  show ?case
    by (rule exI [of _ live]) (intro conjI r1 r2 names r3 r4)
qed

lemma attempt_success_inv:
  assumes g: "get_dataframe (dataset_manager e) = Some df" "\<not> empty df"
    and a: "attempt what body df e = (Inr r, e')" and s: "success r"
  shows "\<exists>live df' msg. body df = (live, Inr (df', msg)) \<and> r = success_with msg []
           \<and> e' = \<lparr>dataset_manager = update_dataframe df' (dataset_manager e),
                    undo_stack = undo_stack e @ [df], redo_stack = []\<rparr>"
proof -
  obtain live res where b: "body df = (live, res)" by (cases "body df")
  show ?thesis
  proof (cases res)
    case (Inl x)
    then have "r = failure [Lit (what @ '' failed: ''), Lit (str x)]"
      using a b by (simp add: attempt_def Let_def)
    then show ?thesis using s by (simp add: failure_def)
  next
    case (Inr p)
    obtain df' msg where p: "p = (df', msg)" by (cases p)
    have "attempt what body df e =
           (Inr (success_with msg []),
            \<lparr>dataset_manager = update_dataframe df' (dataset_manager e),
             undo_stack = undo_stack e @ [df], redo_stack = []\<rparr>)"
      using attempt_success [OF g, of body live df' msg what] b Inr p by simp
    with a have "r = success_with msg []"
      and "e' = \<lparr>dataset_manager = update_dataframe df' (dataset_manager e),
                    undo_stack = undo_stack e @ [df], redo_stack = []\<rparr>"
      by simp_all
    then show ?thesis using b Inr p by simp
  qed
qed

lemma apply_pca_rejects:
  assumes "get_dataframe (dataset_manager e) = Some df"
    and "length (numeric_columns df) < 2 \<or> n > int (length (numeric_columns df))"
  shows "\<exists>msg. apply_pca L n e = (Inr (failure msg), e)"
proof (cases "empty df")
  case True
  then show ?thesis using assms(1) by (auto simp: apply_pca_def table_guard_def no_dataset_def)
next
  case False
  then have "table_guard (get_dataframe (dataset_manager e)) = Proceed df"
    using assms(1) by (simp add: table_guard_def)
  then show ?thesis using assms(2) by (auto simp: apply_pca_def Let_def)
qed

lemma apply_pca_three_of_two:
  assumes "get_dataframe (dataset_manager e) = Some df" "\<not> empty df"
    and "length (numeric_columns df) = 2"
  shows "apply_pca L 3 e = (Inr (failure [Lit ''n_components must be <= '', IntF 2]), e)"
  using assms by (simp add: apply_pca_def table_guard_def Let_def)

lemma apply_pca_success:
  assumes a: "apply_pca L n e = (Inr r, e')" and s: "success r"
  shows "\<exists>df df' project ratios.
            get_dataframe (dataset_manager e) = Some df
          \<and> get_dataframe (dataset_manager e') = Some df'
          \<and> pca_fit L n (map (map the) (matrix df (numeric_columns df))) = Inr (project, ratios)
          \<and> message r = [Lit ''Successfully applied PCA with '', IntF n,
                          Lit '' components (variance explained: '',
                          Fixed 1 (sum_list ratios * 100), Lit ''%)'']
          \<and> row_index df' = row_index df
          \<and> column_names df' =
                column_names df
                @ filter (\<lambda>nm. nm \<notin> set (column_names df)) (map pc_name [0..<nat n])
          \<and> (\<forall>nm. nm \<notin> pc_name ` set [0..<nat n] \<longrightarrow> getitem df' nm = getitem df nm)
          \<and> (\<forall>i \<in> set [0..<nat n]. getitem df' (pc_name i) \<noteq> []
                \<and> (\<forall>c \<in> set (getitem df' (pc_name i)).
                      cdata c = NumCol (map (\<lambda>row. Some (project row i))
                                          (map (map the) (matrix df (numeric_columns df))))))"
proof -
  have nt: "\<not> turned_down (apply_pca L n e) e"
    using a s by (auto simp: turned_down_def failure_def)
  obtain df where tg: "table_guard (get_dataframe (dataset_manager e)) = Proceed df"
  proof (cases "table_guard (get_dataframe (dataset_manager e))")
    case (Proceed df)
    then show ?thesis using that by blast
  next
    case (Reject x)
    then have "turned_down (apply_pca L n e) e"
      using table_guard_Reject [OF Reject] by (auto simp: apply_pca_def turned_down_def)
    then show ?thesis using nt by simp
  next
    case (Escape x)
    then show ?thesis by (simp add: table_guard_Escape)
  qed
  then have g: "get_dataframe (dataset_manager e) = Some df" "\<not> empty df"
    by (simp_all add: table_guard_Proceed)
  let ?names = "numeric_columns df"
  let ?X = "map (map the) (matrix df ?names)"
  have ok: "\<not> (length ?names < 2 \<or> n > int (length ?names))"
    using apply_pca_rejects [OF g(1), of n L] nt by (auto simp: turned_down_def)
  then have run: "apply_pca L n e = attempt ''PCA'' (pca_transform L n ?names) df e"
    using tg by (simp add: apply_pca_def Let_def)
  from attempt_success_inv [OF g a [unfolded run] s] obtain live df' msg where
    b: "pca_transform L n ?names df = (live, Inr (df', msg))"
    and r: "r = success_with msg []"
    and e': "e' = \<lparr>dataset_manager = update_dataframe df' (dataset_manager e),
                    undo_stack = undo_stack e @ [df], redo_stack = []\<rparr>"
    by blast
  have nonan: "\<not> list_ex (list_ex (\<lambda>x. x = None)) (matrix df ?names)"
    using b by (auto simp: pca_transform_def Let_def split: if_splits)
  obtain project ratios where f: "pca_fit L n ?X = Inr (project, ratios)"
    using b nonan by (cases "pca_fit L n ?X") (auto simp: pca_transform_def Let_def)
  have lx: "length ?X = len df" by (simp add: length_matrix)
  from pc_loop_result [OF lx, of "[0..<nat n]" project] obtain l where
    res: "pc_loop project ?X [0..<nat n] df = (l, Inr ())
      \<and> row_index l = row_index df
      \<and> column_names l =
            column_names df @ filter (\<lambda>nm. nm \<notin> set (column_names df)) (map pc_name [0..<nat n])
      \<and> (\<forall>nm. nm \<notin> pc_name ` set [0..<nat n] \<longrightarrow> getitem l nm = getitem df nm)
      \<and> (\<forall>i \<in> set [0..<nat n]. getitem l (pc_name i) \<noteq> []
            \<and> (\<forall>c \<in> set (getitem l (pc_name i)).
                  cdata c = NumCol (map (\<lambda>r. Some (project r i)) ?X)))"
    by auto
  note loop = res [THEN conjunct1]
  have "pca_transform L n ?names df =
          (l, Inr (l, [Lit ''Successfully applied PCA with '', IntF n,
                       Lit '' components (variance explained: '',
                       Fixed 1 (sum_list ratios * 100), Lit ''%)'']))"
    using nonan f loop by (simp add: pca_transform_def Let_def)
  with b have dl: "df' = l"
    and m: "msg = [Lit ''Successfully applied PCA with '', IntF n,
                       Lit '' components (variance explained: '',
                       Fixed 1 (sum_list ratios * 100), Lit ''%)'']"
    by auto
  have g': "get_dataframe (dataset_manager e') = Some df'"
    using get_update [OF g] by (simp add: e')
  have mr: "message r = [Lit ''Successfully applied PCA with '', IntF n,
                          Lit '' components (variance explained: '',
                          Fixed 1 (sum_list ratios * 100), Lit ''%)'']"
    by (simp add: r m success_with_def)
  show ?thesis
    apply (rule exI [of _ df], rule exI [of _ df'], rule exI [of _ project],
        rule exI [of _ ratios])
    apply (intro conjI g(1) g' f mr)
    using res [THEN conjunct2] unfolding dl by blast+
qed

lemma pc_name_first: "pc_name 0 = ''PC_1''" "pc_name (Suc 0) = ''PC_2''"
  by (simp_all add: pc_name_def string_of_nat_small)

lemma pca_ok_run:
  "apply_pca coordinate_library 2 pca_ok_engine =
     (Inr (success_with [Lit ''Successfully applied PCA with '', IntF 2,
                         Lit '' components (variance explained: '', Fixed 1 100, Lit ''%)''] []),
      \<lparr>dataset_manager = loaded pca_ok_result, undo_stack = [pca_ok_table], redo_stack = []\<rparr>)"
proof -
  have g: "get_dataframe (dataset_manager pca_ok_engine) = Some pca_ok_table"
    by (simp add: pca_ok_engine_def loaded_def get_dataframe_def)
  have ne: "\<not> empty pca_ok_table" by (simp add: pca_ok_table_def empty_def len_def)
  have nc: "numeric_columns pca_ok_table = [''a'', ''b'']"
    by (simp add: numeric_columns_def pca_ok_table_def)
  have m: "matrix pca_ok_table [''a'', ''b''] = [[Some 1, Some 3], [Some 2, Some 4]]"
    by (simp add: matrix_def pca_ok_table_def getitem_def len_def upt_conv_Cons)
  have u: "[0..<2] = [0, Suc 0]" by (simp add: upt_conv_Cons)
  have f: "pca_fit coordinate_library 2 [[1, 3], [2, 4]] = Inr (\<lambda>r i. r ! i, [1 / 2, 1 / 2])"
    by (simp add: coordinate_library_def numeral_2_eq_2)
  have loop: "pc_loop (\<lambda>r i. r ! i) [[1, 3], [2, 4]] [0, Suc 0] pca_ok_table
        = (pca_ok_result, Inr ())"
    by (simp add: pc_name_first setitem_def pca_ok_table_def pca_ok_result_def len_def
        column_names_def)
  have b: "pca_transform coordinate_library 2 [''a'', ''b''] pca_ok_table =
        (pca_ok_result, Inr (pca_ok_result,
           [Lit ''Successfully applied PCA with '', IntF 2,
            Lit '' components (variance explained: '', Fixed 1 100, Lit ''%)'']))"
    by (simp add: pca_transform_def m f u loop del: pc_loop.simps)
  have "apply_pca coordinate_library 2 pca_ok_engine =
          attempt ''PCA'' (pca_transform coordinate_library 2 [''a'', ''b'']) pca_ok_table pca_ok_engine"
    by (simp add: apply_pca_def g table_guard_def ne nc)
  then show ?thesis
    using attempt_success [where body = "pca_transform coordinate_library 2 [''a'', ''b'']"
        and what = "''PCA''", OF g ne b]
    by (simp add: pca_ok_engine_def loaded_def update_dataframe_def)
qed

text \<open>
  Claim C8. \<open>apply_pca\<close> answers a failure and leaves the engine, hence the table, as it
  was whenever the table has fewer than two number columns or more components are asked for
  than it has number columns; asking for three components of a table with exactly two number
  columns is such a call. When it succeeds, the table has the columns PC_1 .. PC_n, each
  holding its component of the projection of the number columns: the names the table did not
  have are appended after its columns, in order, every other column is as it was, and the
  message carries the sum of the explained variance ratios times 100.
\<close>

theorem apply_pca_checks_and_components:
  "(\<forall>e df. get_dataframe (dataset_manager e) = Some df
         \<and> (length (numeric_columns df) < 2 \<or> n > int (length (numeric_columns df)))
       \<longrightarrow> (\<exists>msg. apply_pca L n e = (Inr (failure msg), e)))
   \<and> (\<forall>e df. get_dataframe (dataset_manager e) = Some df \<and> \<not> empty df
         \<and> length (numeric_columns df) = 2
       \<longrightarrow> apply_pca L 3 e = (Inr (failure [Lit ''n_components must be <= '', IntF 2]), e))
   \<and> (\<forall>e r e'. apply_pca L n e = (Inr r, e') \<and> success r \<longrightarrow>
        (\<exists>df df' project ratios.
            get_dataframe (dataset_manager e) = Some df
          \<and> get_dataframe (dataset_manager e') = Some df'
          \<and> pca_fit L n (map (map the) (matrix df (numeric_columns df))) = Inr (project, ratios)
          \<and> message r = [Lit ''Successfully applied PCA with '', IntF n,
                          Lit '' components (variance explained: '',
                          Fixed 1 (sum_list ratios * 100), Lit ''%)'']
          \<and> row_index df' = row_index df
          \<and> column_names df' =
                column_names df
                @ filter (\<lambda>nm. nm \<notin> set (column_names df)) (map pc_name [0..<nat n])
          \<and> (\<forall>nm. nm \<notin> pc_name ` set [0..<nat n] \<longrightarrow> getitem df' nm = getitem df nm)
          \<and> (\<forall>i \<in> set [0..<nat n]. getitem df' (pc_name i) \<noteq> []
                \<and> (\<forall>c \<in> set (getitem df' (pc_name i)).
                      cdata c = NumCol (map (\<lambda>row. Some (project row i))
                                          (map (map the) (matrix df (numeric_columns df))))))))"
proof (intro conjI allI impI)
  fix e :: engine and df
  assume "get_dataframe (dataset_manager e) = Some df
         \<and> (length (numeric_columns df) < 2 \<or> n > int (length (numeric_columns df)))"
  then show "\<exists>msg. apply_pca L n e = (Inr (failure msg), e)"
    using apply_pca_rejects [of e df n L] by blast
next
  fix e :: engine and df
  assume "get_dataframe (dataset_manager e) = Some df \<and> \<not> empty df
         \<and> length (numeric_columns df) = 2"
  then show "apply_pca L 3 e = (Inr (failure [Lit ''n_components must be <= '', IntF 2]), e)"
    using apply_pca_three_of_two [of e df L] by blast
next
  fix e r e'
  assume "apply_pca L n e = (Inr r, e') \<and> success r"
  then have a: "apply_pca L n e = (Inr r, e')" and s: "success r" by simp_all
  show "\<exists>df df' project ratios.
            get_dataframe (dataset_manager e) = Some df
          \<and> get_dataframe (dataset_manager e') = Some df'
          \<and> pca_fit L n (map (map the) (matrix df (numeric_columns df))) = Inr (project, ratios)
          \<and> message r = [Lit ''Successfully applied PCA with '', IntF n,
                          Lit '' components (variance explained: '',
                          Fixed 1 (sum_list ratios * 100), Lit ''%)'']
          \<and> row_index df' = row_index df
          \<and> column_names df' =
                column_names df
                @ filter (\<lambda>nm. nm \<notin> set (column_names df)) (map pc_name [0..<nat n])
          \<and> (\<forall>nm. nm \<notin> pc_name ` set [0..<nat n] \<longrightarrow> getitem df' nm = getitem df nm)
          \<and> (\<forall>i \<in> set [0..<nat n]. getitem df' (pc_name i) \<noteq> []
                \<and> (\<forall>c \<in> set (getitem df' (pc_name i)).
                      cdata c = NumCol (map (\<lambda>row. Some (project row i))
                                          (map (map the) (matrix df (numeric_columns df))))))"
    by (rule apply_pca_success [OF a s])
qed

theorem apply_pca_checks_and_components_witness:
  "get_dataframe (dataset_manager pca_nan_engine) = Some pca_nan_table
   \<and> \<not> empty pca_nan_table \<and> length (numeric_columns pca_nan_table) = 2
   \<and> apply_pca offline_library 3 pca_nan_engine =
       (Inr (failure [Lit ''n_components must be <= '', IntF 2]), pca_nan_engine)
   \<and> apply_pca coordinate_library 2 pca_ok_engine =
       (Inr (success_with [Lit ''Successfully applied PCA with '', IntF 2,
                           Lit '' components (variance explained: '', Fixed 1 100, Lit ''%)''] []),
        \<lparr>dataset_manager = loaded pca_ok_result, undo_stack = [pca_ok_table],
         redo_stack = []\<rparr>)
   \<and> column_names pca_ok_result = [''a'', ''b'', ''PC_1'', ''PC_2'']"
proof -
  have g: "get_dataframe (dataset_manager pca_nan_engine) = Some pca_nan_table"
    by (simp add: pca_nan_engine_def loaded_def get_dataframe_def)
  have ne: "\<not> empty pca_nan_table" by (simp add: pca_nan_table_def empty_def len_def)
  have nc: "length (numeric_columns pca_nan_table) = 2"
    by (simp add: numeric_columns_def pca_nan_table_def)
  note t = apply_pca_checks_and_components [of 3 offline_library]
  from t g ne nc have r: "apply_pca offline_library 3 pca_nan_engine =
       (Inr (failure [Lit ''n_components must be <= '', IntF 2]), pca_nan_engine)"
    by blast
  have "column_names pca_ok_result = [''a'', ''b'', ''PC_1'', ''PC_2'']"
    by (simp add: pca_ok_result_def column_names_def)
  with g ne nc r pca_ok_run show ?thesis by simp
qed

section \<open>The logarithm transform\<close>











section \<open>No dataset loaded\<close>

lemma guards_without_dataset:
  assumes "current_dataset dm = None"
  shows "table_guard (get_dataframe dm) = Reject no_dataset"
    and "column_guard column (get_dataframe dm) = Reject no_dataset"
    and "numeric_guard m column (get_dataframe dm) = Reject no_dataset"
  using assms
  by (simp_all add: numeric_guard_def column_guard_def table_guard_def get_dataframe_def
      DataFrame_def empty_def len_def)

lemma call_without_dataset:
  assumes "current_dataset (dataset_manager e) = None"
  shows "call L c e = (Inr no_dataset, e)"
  using guards_without_dataset [OF assms]
  by (cases c)
     (simp_all add: standardize_column_def minmax_scale_column_def robust_scale_column_def
      log_transform_column_def sqrt_transform_column_def bin_column_def
      create_polynomial_features_def one_hot_encode_column_def label_encode_column_def
      apply_pca_def create_custom_feature_def numeric_operation_def column_operation_def)

lemma clean_without_dataset:
  assumes "current_dataset dm = None"
  shows "clean L c dm =
           (Inr (if c = AutoClean then failure [Lit ''No dataset loaded or dataset is empty'']
                 else no_dataset), dm)"
proof (cases c)
  case AutoClean
  then show ?thesis
    using assms by (simp add: auto_clean_def get_dataframe_def DataFrame_def empty_def len_def)
next
  case RemoveDuplicates
  then show ?thesis
    using assms
    by (simp add: remove_duplicates_def get_dataframe_def DataFrame_def empty_def len_def)
qed (use guards_without_dataset [OF assms] in
      \<open>simp_all add: fill_missing_with_mean_def fill_missing_with_mode_def
         fill_missing_with_custom_def drop_column_def\<close>)

text \<open>
  Claim C10, as stated: every operation of the two controllers, invoked with no dataset
  loaded, answers a failure whose message says that no dataset is loaded. On the engine as
  it is created, \<open>undo\<close> answers "Nothing to undo", and \<open>get_data_quality_summary\<close> answers
  \<open>None\<close>, which is no failure result.
\<close>

theorem undo_without_dataset_counterexample:
  "current_dataset (dataset_manager fresh_engine) = None
   \<and> undo fresh_engine = (Inr (failure [Lit ''Nothing to undo'']), fresh_engine)
   \<and> get_data_quality_summary (dataset_manager fresh_engine) = None"
  by (simp add: fresh_engine_def undo_def get_data_quality_summary_def table_guard_def
      get_dataframe_def DataFrame_def empty_def len_def)

text \<open>
  Claim C10, amended. With no dataset loaded, the fetch from the store yields the empty
  frame, never \<open>None\<close> (it yields a frame in every state of the store, so the \<open>None\<close>
  branches of the controllers are never taken). Every mutating operation of the cleaning
  controller and every transforming operation of the feature controller then returns, with
  the state as it was and no exception, a failure whose message is "No dataset loaded"
  ("No dataset loaded or dataset is empty" for \<open>auto_clean\<close>). \<open>undo\<close> and \<open>redo\<close> on empty
  stacks return the failures "Nothing to undo" and "Nothing to redo", and
  \<open>get_data_quality_summary\<close> returns \<open>None\<close>.
\<close>

theorem operations_without_dataset:
  assumes "current_dataset dm = None" and "dataset_manager e = dm"
  shows "get_dataframe dm = Some DataFrame \<and> empty DataFrame
       \<and> (\<forall>m. get_dataframe m \<noteq> None)
       \<and> (\<forall>L c. call L c e = (Inr (failure [Lit ''No dataset loaded'']), e))
       \<and> (\<forall>L c. clean L c dm =
             (Inr (failure [Lit (if c = AutoClean
                                 then ''No dataset loaded or dataset is empty''
                                 else ''No dataset loaded'')]), dm))
       \<and> (undo_stack e = [] \<longrightarrow> undo e = (Inr (failure [Lit ''Nothing to undo'']), e))
       \<and> (redo_stack e = [] \<longrightarrow> redo e = (Inr (failure [Lit ''Nothing to redo'']), e))
       \<and> get_data_quality_summary dm = None"
proof (intro conjI allI impI)
  show "get_dataframe dm = Some DataFrame" using assms(1) by (simp add: get_dataframe_def)
  show "empty DataFrame" by (simp add: DataFrame_def empty_def len_def)
  show "get_dataframe m \<noteq> None" for m
    by (simp add: get_dataframe_def split: option.splits)
  show "call L c e = (Inr (failure [Lit ''No dataset loaded'']), e)" for L c
    using call_without_dataset [of e L c] assms by (simp add: no_dataset_def)
  show "clean L c dm =
             (Inr (failure [Lit (if c = AutoClean
                                 then ''No dataset loaded or dataset is empty''
                                 else ''No dataset loaded'')]), dm)" for L c
    using clean_without_dataset [OF assms(1), of L c] by (simp add: no_dataset_def)
  show "undo e = (Inr (failure [Lit ''Nothing to undo'']), e)" if "undo_stack e = []"
    using that by (simp add: undo_def)
  show "redo e = (Inr (failure [Lit ''Nothing to redo'']), e)" if "redo_stack e = []"
    using that by (simp add: redo_def)
  show "get_data_quality_summary dm = None"
    using guards_without_dataset(1) [OF assms(1)] by (simp add: get_data_quality_summary_def)
qed

theorem operations_without_dataset_witness:
  "current_dataset (dataset_manager fresh_engine) = None
   \<and> get_dataframe (dataset_manager fresh_engine) = Some DataFrame
   \<and> call offline_library (Standardize ''Age'') fresh_engine =
       (Inr (failure [Lit ''No dataset loaded'']), fresh_engine)
   \<and> clean offline_library AutoClean (dataset_manager fresh_engine) =
       (Inr (failure [Lit ''No dataset loaded or dataset is empty'']),
        dataset_manager fresh_engine)
   \<and> redo fresh_engine = (Inr (failure [Lit ''Nothing to redo'']), fresh_engine)"
proof -
  have n: "current_dataset (dataset_manager fresh_engine) = None"
    by (simp add: fresh_engine_def)
  have r: "redo_stack fresh_engine = []" by (simp add: fresh_engine_def)
  note t = operations_without_dataset [OF n refl]
  have "call offline_library (Standardize ''Age'') fresh_engine =
       (Inr (failure [Lit ''No dataset loaded'']), fresh_engine)"
    using t [THEN conjunct2, THEN conjunct2, THEN conjunct2, THEN conjunct1] by blast
  moreover have "clean offline_library AutoClean (dataset_manager fresh_engine) =
       (Inr (failure [Lit ''No dataset loaded or dataset is empty'']),
        dataset_manager fresh_engine)"
    using t [THEN conjunct2, THEN conjunct2, THEN conjunct2, THEN conjunct2, THEN conjunct1,
        rule_format, of offline_library AutoClean] by simp
  moreover have "redo fresh_engine = (Inr (failure [Lit ''Nothing to redo'']), fresh_engine)"
    using t r by blast
  ultimately show ?thesis using n t [THEN conjunct1] by simp
qed

end
